theory Spec2Isabelle
  imports Complex_Main
begin

section \<open>Numbers and the helpers of utils.js\<close>

text \<open>
  A JavaScript number is modelled as a real number: the arithmetic of the model is exact,
  rounding is not modelled. \<open>Math.sqrt\<close>, \<open>Math.cos\<close>, \<open>Math.sin\<close> and
  \<open>Math.acos\<close> are \<open>sqrt\<close>, \<open>cos\<close>, \<open>sin\<close> and \<open>arccos\<close>. Where JavaScript
  yields NaN or an infinity (a division by zero, \<open>Math.acos\<close> outside \<open>[-1, 1]\<close>) the
  model has some real number instead, so every theorem whose value depends on such an
  operation states the hypothesis that keeps the operand in range (a unit axis, unit
  arguments of \<open>angleBetween\<close>).

  Three places where the floating-point program parts from the exact model bear on the
  statements below. \<open>Math.acos\<close> returns NaN for an argument above \<open>1\<close>, and the dot
  product of a normalized vector with itself can round to \<open>1.0000000000000002\<close>: the
  \<open>angleBetween\<close> of two equal directions can be NaN in the program, where the model has
  \<open>arccos 1 = 0\<close>. \<open>lerp(a, b, 1)\<close> computes \<open>(b - a) * 1 + a\<close>, which is \<open>b\<close> in
  the model and \<open>b\<close> up to rounding in the program. \<open>clamp\<close> returns a NaN argument
  unchanged, both of its comparisons being false. The statements about the camera are
  statements about cameras whose tracked angles and targets are numbers, and a value is
  said to be reached exactly only where the code assigns it.
\<close>

definition epsilon :: real where
  "epsilon = 1 / 100000000"

definition lerp :: "real \<Rightarrow> real \<Rightarrow> real \<Rightarrow> real" where
  "lerp frm to t = (to - frm) * t + frm"

definition clamp :: "real \<Rightarrow> real \<Rightarrow> real \<Rightarrow> real" where
  "clamp low x high = (if x \<le> low then low else if x \<ge> high then high else x)"

definition isZero :: "real \<Rightarrow> bool" where
  "isZero x = (\<bar>x\<bar> \<le> epsilon)"

definition radToDeg :: "real \<Rightarrow> real" where
  "radToDeg rad = rad * (180 / pi)"

section \<open>Vector3\<close>

text \<open>
  The class \<open>Vector3\<close> has the three fields \<open>x\<close>, \<open>y\<close>, \<open>z\<close>; the selectors are
  \<open>vx\<close>, \<open>vy\<close>, \<open>vz\<close>. An impure method (one that assigns the receiver's fields and
  returns it) is the function from the receiver's old value to its new value; \<open>copy\<close> is
  the identity of the model and is left out. Names of the source that constants of the
  library already have carry the suffix \<open>_v\<close>: \<open>norm\<close> is \<open>norm_v\<close>,
  \<open>normalize\<close> is \<open>normalize_v\<close>, \<open>times\<close> is \<open>times_v\<close>; so do
  \<open>Vector3.isZero\<close> and \<open>Vector3.lerp\<close> (\<open>isZero_v\<close>, \<open>lerp_v\<close>), to keep them
  apart from the scalar helpers of the same names. Left out, as no statement below is
  about them: the array form of the constructor, \<open>asArray\<close>, the two projections, the
  mutators of \<open>Direction2\<close> and \<open>rayIntersectsRect\<close>.
\<close>

datatype Vector3 = Vector3 (vx: real) (vy: real) (vz: real)

definition RIGHT :: Vector3 where "RIGHT = Vector3 1 0 0"
definition FRONT :: Vector3 where "FRONT = Vector3 0 1 0"
definition UP :: Vector3 where "UP = Vector3 0 0 1"

definition cross :: "Vector3 \<Rightarrow> Vector3 \<Rightarrow> Vector3" where
  "cross a b = Vector3 (vy a * vz b - vz a * vy b)
                       (vz a * vx b - vx a * vz b)
                       (vx a * vy b - vy a * vx b)"

definition dot :: "Vector3 \<Rightarrow> Vector3 \<Rightarrow> real" where
  "dot a b = vx a * vx b + vy a * vy b + vz a * vz b"

definition lerp_v :: "Vector3 \<Rightarrow> Vector3 \<Rightarrow> real \<Rightarrow> Vector3" where
  "lerp_v frm to t = Vector3 (lerp (vx frm) (vx to) t)
                            (lerp (vy frm) (vy to) t)
                            (lerp (vz frm) (vz to) t)"

definition angleBetween :: "Vector3 \<Rightarrow> Vector3 \<Rightarrow> real" where
  "angleBetween a b = arccos (dot a b)"

definition signedAngleBetween :: "Vector3 \<Rightarrow> Vector3 \<Rightarrow> Vector3 \<Rightarrow> real" where
  "signedAngleBetween frm to rotationAxis =
     (let ang = angleBetween frm to
      in if dot (cross frm to) rotationAxis < 0 then - ang else ang)"

definition isZero_v :: "Vector3 \<Rightarrow> bool" where
  "isZero_v v = (isZero (vx v) \<and> isZero (vy v) \<and> isZero (vz v))"

definition opposite :: "Vector3 \<Rightarrow> Vector3" where
  "opposite v = Vector3 (- vx v) (- vy v) (- vz v)"

definition increaseBy :: "Vector3 \<Rightarrow> Vector3 \<Rightarrow> Vector3" where
  "increaseBy this v = Vector3 (vx this + vx v) (vy this + vy v) (vz this + vz v)"

definition increasedBy :: "Vector3 \<Rightarrow> Vector3 \<Rightarrow> Vector3" where
  "increasedBy this v = Vector3 (vx this + vx v) (vy this + vy v) (vz this + vz v)"

definition times_v :: "Vector3 \<Rightarrow> real \<Rightarrow> Vector3" where
  "times_v this a = Vector3 (a * vx this) (a * vy this) (a * vz this)"

definition decreaseBy :: "Vector3 \<Rightarrow> Vector3 \<Rightarrow> Vector3" where
  "decreaseBy this v = Vector3 (vx this - vx v) (vy this - vy v) (vz this - vz v)"

definition decreasedBy :: "Vector3 \<Rightarrow> Vector3 \<Rightarrow> Vector3" where
  "decreasedBy this v = Vector3 (vx this - vx v) (vy this - vy v) (vz this - vz v)"

definition difference :: "Vector3 \<Rightarrow> Vector3 \<Rightarrow> Vector3" where
  "difference frm to = increasedBy to (times_v frm (- 1))"

definition norm_v :: "Vector3 \<Rightarrow> real" where
  "norm_v this = sqrt (vx this * vx this + vy this * vy this + vz this * vz this)"

definition normalize_v :: "Vector3 \<Rightarrow> Vector3" where
  "normalize_v this =
     (if isZero_v this then this
      else let norm_' = norm_v this
           in Vector3 (vx this / norm_') (vy this / norm_') (vz this / norm_'))"

definition sqrDistanceTo :: "Vector3 \<Rightarrow> Vector3 \<Rightarrow> real" where
  "sqrDistanceTo this other = (let diff = difference this other in dot diff diff)"

definition distanceTo :: "Vector3 \<Rightarrow> Vector3 \<Rightarrow> real" where
  "distanceTo this other = norm_v (difference this other)"

definition rotateAboutOrthogonal :: "Vector3 \<Rightarrow> Vector3 \<Rightarrow> real \<Rightarrow> Vector3" where
  "rotateAboutOrthogonal this other radians =
     (if isZero_v this then this
      else let z = cross other this
           in increasedBy (times_v this (cos radians)) (times_v z (sin radians)))"

text \<open>
  \<open>rotateAbout\<close> returns nothing and assigns the receiver; the model returns the
  receiver's new value. The early \<open>return\<close> leaves the receiver as it was. The locals
  \<open>aParallel\<close> and \<open>aOrth\<close> of the method are the functions \<open>aParallel_of\<close> and
  \<open>aOrth_of\<close> of the receiver and the axis, so that a statement can name them.
\<close>

definition aParallel_of :: "Vector3 \<Rightarrow> Vector3 \<Rightarrow> Vector3" where
  "aParallel_of a b = times_v b (dot a b / dot b b)"

definition aOrth_of :: "Vector3 \<Rightarrow> Vector3 \<Rightarrow> Vector3" where
  "aOrth_of a b = increasedBy a (times_v (aParallel_of a b) (- 1))"

definition rotateAbout :: "Vector3 \<Rightarrow> Vector3 \<Rightarrow> real \<Rightarrow> Vector3" where
  "rotateAbout this other radians =
     (let a = this;
          b = other;
          aParallel = aParallel_of a b;
          aOrth = aOrth_of a b;
          w = cross b aOrth;
          aOrthNorm = norm_v aOrth
      in if aOrthNorm < epsilon then this
         else let x1 = cos radians / aOrthNorm;
                  x2 = sin radians / norm_v w;
                  aOrthRotated = times_v (increasedBy (times_v aOrth x1) (times_v w x2)) aOrthNorm
              in increasedBy aOrthRotated aParallel)"

section \<open>Direction2\<close>

text \<open>The class \<open>Direction2\<close> has the two fields \<open>h\<close> and \<open>v\<close>.\<close>

datatype Direction2 = Direction2 (dh: real) (dv: real)

definition fromVector3 :: "Vector3 \<Rightarrow> Vector3 \<Rightarrow> Vector3 \<Rightarrow> Direction2" where
  "fromVector3 u vertical horizontal =
     (let v = pi / 2 - angleBetween u vertical;
          right = cross u vertical;
          hDirection = rotateAboutOrthogonal u right (- v);
          h = signedAngleBetween horizontal hDirection vertical
      in Direction2 h v)"

definition toVector3 :: "Direction2 \<Rightarrow> Vector3 \<Rightarrow> Vector3 \<Rightarrow> Vector3" where
  "toVector3 this vertical horizontal =
     (let result = rotateAboutOrthogonal horizontal vertical (dh this);
          right = cross result vertical
      in rotateAboutOrthogonal result right (dv this))"

section \<open>Planes and rays\<close>

text \<open>
  A plane is \<open>{ n, d }\<close>, a ray is \<open>{ P, v }\<close>. The failure sentinel \<open>null\<close> of
  \<open>rayPlaneIntersection\<close> is \<open>None\<close>.
\<close>

datatype Plane = Plane (plane_n: Vector3) (plane_d: real)

datatype Ray = Ray (ray_P: Vector3) (ray_v: Vector3)

definition rectToPlane :: "Vector3 \<Rightarrow> Vector3 \<Rightarrow> Vector3 \<Rightarrow> Plane" where
  "rectToPlane A B C =
     (let n = cross (difference A B) (difference A C);
          d = - dot n A
      in Plane n d)"

definition rayPlaneIntersection :: "Ray \<Rightarrow> Plane \<Rightarrow> Vector3 option" where
  "rayPlaneIntersection ray plane =
     (let den = dot (plane_n plane) (ray_v ray)
      in if isZero den then None
         else let t = - (dot (plane_n plane) (ray_P ray) + plane_d plane) / den
              in if t < 0 then None
                 else Some (increasedBy (ray_P ray) (times_v (ray_v ray) t)))"

section \<open>The camera (NA3DCamera.js)\<close>

text \<open>
  The private fields of the class are the fields of the record; the smoothing coefficients
  \<open>#t\<close> and \<open>#s\<close> are \<open>coef_t\<close> and \<open>coef_s\<close>. No two fields of an instance ever
  hold the same \<open>Vector3\<close> object (every assignment stores a fresh vector), so an
  in-place update of one field is a record update of that field alone. A method is a
  function from the camera's state before the call to its state after it.
\<close>

record Camera =
  position :: Vector3
  pedestal :: Vector3
  horizontal :: Vector3
  look :: Vector3
  right :: Vector3
  up :: Vector3
  coef_t :: real
  coef_s :: real
  xAng :: real
  yAng :: real
  targetXang :: real
  targetYang :: real
  rInclinAng :: real
  fInclinAng :: real
  targetRInclinAng :: real
  targetFInclinAng :: real
  targetPosition :: Vector3
  maxUpAng :: real
  minUpAng :: real

definition changeHand :: "Vector3 \<Rightarrow> Vector3" where
  "changeHand v = Vector3 (vx v) (- vy v) (vz v)"

definition changeAngleHand :: "real \<Rightarrow> real" where
  "changeAngleHand a = - a"

definition construct3Position :: "Camera \<Rightarrow> Vector3" where
  "construct3Position c = changeHand (position c)"

definition construct3Forward :: "Camera \<Rightarrow> Vector3" where
  "construct3Forward c = changeHand (look c)"

definition construct3Up :: "Camera \<Rightarrow> Vector3" where
  "construct3Up c = up c"

definition construct3Right :: "Camera \<Rightarrow> Vector3" where
  "construct3Right c = changeHand (right c)"

definition xAngle :: "Camera \<Rightarrow> real" where
  "xAngle c = changeAngleHand (xAng c)"

definition xAngleDegrees :: "Camera \<Rightarrow> real" where
  "xAngleDegrees c = radToDeg (xAngle c)"

definition yAngle :: "Camera \<Rightarrow> real" where
  "yAngle c = yAng c"

definition getSmoothness :: "Camera \<Rightarrow> real" where
  "getSmoothness c = 11 / 10 - (coef_t c * (11 / 10) - 1 / 10)"

definition setSmoothness :: "Camera \<Rightarrow> real \<Rightarrow> real \<Rightarrow> Camera" where
  "setSmoothness c look_in position_in =
     (let min_' = 1 / 1000;
          max_' = 999 / 1000
      in c\<lparr>coef_t := 1 - clamp min_' look_in max_',
            coef_s := 1 - clamp min_' position_in max_'\<rparr>)"

definition updateRight :: "Camera \<Rightarrow> Camera" where
  "updateRight c = c\<lparr>right := normalize_v (cross (look c) (pedestal c))\<rparr>"

definition updateUp :: "Camera \<Rightarrow> Camera" where
  "updateUp c = c\<lparr>up := cross (right c) (look c)\<rparr>"

text \<open>
  The constructor of the class: \<open>constructor p d l xa m\<close> is the camera after
  \<open>new NA3DCamera(p, d, l, xa, m)\<close> (the source defaults \<open>xAng\<close> to \<open>0\<close> and
  \<open>maxAbsUpAng\<close> to \<open>\<pi>/3\<close>). The fields \<open>#t\<close> and \<open>#s\<close> are initialised to \<open>1\<close>;
  \<open>right\<close> and \<open>up\<close> are what \<open>#updateRight\<close> and \<open>#updateUp\<close> compute.
\<close>

definition constructor :: "Vector3 \<Rightarrow> Vector3 \<Rightarrow> Vector3 \<Rightarrow> real \<Rightarrow> real \<Rightarrow> Camera" where
  "constructor position_in pedestal_in look_in xAng_in maxAbsUpAng =
     (let position1 = changeHand position_in;
          pedestal1 = normalize_v (changeHand pedestal_in);
          look1 = normalize_v (changeHand look_in);
          right1 = normalize_v (cross look1 pedestal1);
          up1 = cross right1 look1;
          yAng1 = pi / 2 - angleBetween pedestal1 look1;
          xAng1 = changeAngleHand xAng_in;
          horizontal1 = rotateAboutOrthogonal
                          (rotateAboutOrthogonal look1 right1 (- yAng1)) pedestal1 (- xAng1)
      in \<lparr>position = position1, pedestal = pedestal1, horizontal = horizontal1,
          look = look1, right = right1, up = up1, coef_t = 1, coef_s = 1,
          xAng = xAng1, yAng = yAng1, targetXang = xAng1, targetYang = yAng1,
          rInclinAng = 0, fInclinAng = 0, targetRInclinAng = 0, targetFInclinAng = 0,
          targetPosition = position1, maxUpAng = maxAbsUpAng, minUpAng = - maxAbsUpAng\<rparr>)"

definition updateAngles :: "Camera \<Rightarrow> Camera" where
  "updateAngles c =
     (let direction = fromVector3 (look c) (pedestal c) (horizontal c)
      in c\<lparr>xAng := dh direction, yAng := dv direction,
            targetXang := dh direction, targetYang := dv direction\<rparr>)"

definition setLook :: "Camera \<Rightarrow> Vector3 \<Rightarrow> Camera" where
  "setLook c look_in =
     updateUp (updateRight (updateAngles (c\<lparr>look := normalize_v (changeHand look_in)\<rparr>)))"

definition setLookSmooth :: "Camera \<Rightarrow> Vector3 \<Rightarrow> Camera" where
  "setLookSmooth c look_in =
     (let look1 = normalize_v (changeHand look_in);
          direction = fromVector3 look1 (pedestal c) (horizontal c)
      in c\<lparr>targetXang := dh direction, targetYang := dv direction\<rparr>)"

definition lookAt :: "Camera \<Rightarrow> Vector3 \<Rightarrow> Camera" where
  "lookAt c target = setLook c (difference (changeHand (position c)) target)"

definition lookAtSmooth :: "Camera \<Rightarrow> Vector3 \<Rightarrow> Camera" where
  "lookAtSmooth c target = setLookSmooth c (difference (changeHand (position c)) target)"

definition rotateLeft :: "Camera \<Rightarrow> real \<Rightarrow> Camera" where
  "rotateLeft c radians = c\<lparr>targetXang := targetXang c + radians\<rparr>"

definition actuallyRotateLeft :: "Camera \<Rightarrow> real \<Rightarrow> Camera" where
  "actuallyRotateLeft c radians =
     (if isZero radians then c
      else let c1 = c\<lparr>look := rotateAbout (look c) (pedestal c) radians\<rparr>;
               c2 = updateUp (updateRight c1)
           in c2\<lparr>xAng := xAng c2 + radians\<rparr>)"

definition rotateUp :: "Camera \<Rightarrow> real \<Rightarrow> Camera" where
  "rotateUp c radians =
     c\<lparr>targetYang := clamp (minUpAng c) (targetYang c + radians) (maxUpAng c)\<rparr>"

definition actuallyRotateUp :: "Camera \<Rightarrow> real \<Rightarrow> Camera" where
  "actuallyRotateUp c radians =
     (if isZero radians then c
      else if yAng c + radians > maxUpAng c then
        updateUp (c\<lparr>look := rotateAboutOrthogonal (look c) (right c) (maxUpAng c - yAng c),
                     yAng := maxUpAng c\<rparr>)
      else if yAng c + radians < minUpAng c then
        updateUp (c\<lparr>look := rotateAboutOrthogonal (look c) (right c) (minUpAng c - yAng c),
                     yAng := minUpAng c\<rparr>)
      else
        updateUp (c\<lparr>look := rotateAboutOrthogonal (look c) (right c) radians,
                     yAng := yAng c + radians\<rparr>))"

definition inclineRight :: "Camera \<Rightarrow> real \<Rightarrow> Camera" where
  "inclineRight c radians = c\<lparr>targetRInclinAng := targetRInclinAng c + radians\<rparr>"

definition actuallyInclineRight :: "Camera \<Rightarrow> real \<Rightarrow> Camera" where
  "actuallyInclineRight c radians =
     (if \<bar>radians\<bar> < epsilon then c
      else let axis = cross (pedestal c) (right c);
               c1 = c\<lparr>pedestal := rotateAboutOrthogonal (pedestal c) axis radians\<rparr>;
               c2 = c1\<lparr>look := rotateAbout (look c1) axis radians\<rparr>;
               c3 = updateUp (updateRight c2)
           in c3\<lparr>rInclinAng := rInclinAng c3 + radians\<rparr>)"

definition inclineForward :: "Camera \<Rightarrow> real \<Rightarrow> Camera" where
  "inclineForward c radians = c\<lparr>targetFInclinAng := targetFInclinAng c + radians\<rparr>"

definition actuallyInclineForward :: "Camera \<Rightarrow> real \<Rightarrow> Camera" where
  "actuallyInclineForward c radians =
     (if \<bar>radians\<bar> < epsilon then c
      else let c1 = c\<lparr>pedestal := rotateAbout (pedestal c) (right c) radians\<rparr>;
               c2 = c1\<lparr>look := rotateAboutOrthogonal (look c1) (right c1) radians\<rparr>;
               c3 = updateUp c2
           in c3\<lparr>fInclinAng := fInclinAng c3 + radians\<rparr>)"

definition setXangle :: "Camera \<Rightarrow> real \<Rightarrow> Camera" where
  "setXangle c radians = (let delta = radians - xAng c in actuallyRotateLeft c delta)"

definition setYangle :: "Camera \<Rightarrow> real \<Rightarrow> Camera" where
  "setYangle c radians = (let delta = radians - yAng c in actuallyRotateUp c delta)"

definition setRInclinAng :: "Camera \<Rightarrow> real \<Rightarrow> Camera" where
  "setRInclinAng c radians = (let delta = radians - rInclinAng c in actuallyInclineRight c delta)"

definition setFInclinAng :: "Camera \<Rightarrow> real \<Rightarrow> Camera" where
  "setFInclinAng c radians = (let delta = radians - fInclinAng c in actuallyInclineForward c delta)"

definition setPosition :: "Camera \<Rightarrow> Vector3 \<Rightarrow> Camera" where
  "setPosition c position_in =
     (let p = changeHand position_in in c\<lparr>position := p, targetPosition := p\<rparr>)"

definition setPositionSmooth :: "Camera \<Rightarrow> Vector3 \<Rightarrow> Camera" where
  "setPositionSmooth c position_in = c\<lparr>targetPosition := changeHand position_in\<rparr>"

definition moveRight :: "Camera \<Rightarrow> real \<Rightarrow> Camera" where
  "moveRight c amount = c\<lparr>position := increaseBy (position c) (times_v (right c) amount)\<rparr>"

definition moveForward :: "Camera \<Rightarrow> real \<Rightarrow> Camera" where
  "moveForward c amount = c\<lparr>position := increaseBy (position c) (times_v (look c) amount)\<rparr>"

definition moveUp :: "Camera \<Rightarrow> real \<Rightarrow> Camera" where
  "moveUp c amount = c\<lparr>position := increaseBy (position c) (times_v (up c) amount)\<rparr>"

definition update :: "Camera \<Rightarrow> Camera" where
  "update c =
     (let c1 = setXangle c (lerp (xAng c) (targetXang c) (coef_t c));
          c2 = setYangle c1 (lerp (yAng c1) (targetYang c1) (coef_t c1));
          c3 = setRInclinAng c2 (lerp (rInclinAng c2) (targetRInclinAng c2) (coef_t c2));
          c4 = setFInclinAng c3 (lerp (fInclinAng c3) (targetFInclinAng c3) (coef_t c3))
      in c4\<lparr>position := lerp_v (position c4) (targetPosition c4) (coef_s c4)\<rparr>)"

section \<open>Notions used in the statements\<close>

text \<open>
  Agreement of two vectors within the numerical tolerance the specification fixes for its
  vector properties: every component within \<open>1e-6\<close>.
\<close>

definition within_tolerance :: "Vector3 \<Rightarrow> Vector3 \<Rightarrow> bool" where
  "within_tolerance u w =
     (\<bar>vx u - vx w\<bar> \<le> 1 / 1000000 \<and> \<bar>vy u - vy w\<bar> \<le> 1 / 1000000
      \<and> \<bar>vz u - vz w\<bar> \<le> 1 / 1000000)"

text \<open>
  The camera of the specification's end-to-end example: position \<open>(0,0,0)\<close>, pedestal
  \<open>(0,0,1)\<close>, look \<open>(0,1,0)\<close>, horizontal angle \<open>0\<close>; the elevation bound is left
  as a parameter.
\<close>

definition level_camera :: "real \<Rightarrow> Camera" where
  "level_camera maxAbsUpAng =
     constructor (Vector3 0 0 0) (Vector3 0 0 1) (Vector3 0 1 0) 0 maxAbsUpAng"

text \<open>
  Three vectors are orthonormal when each has norm one and each pair has dot product zero.
\<close>

definition orthonormal :: "Vector3 \<Rightarrow> Vector3 \<Rightarrow> Vector3 \<Rightarrow> bool" where
  "orthonormal a b c =
     (norm_v a = 1 \<and> norm_v b = 1 \<and> norm_v c = 1 \<and> dot a b = 0 \<and> dot a c = 0 \<and> dot b c = 0)"

text \<open>
  The frame condition every step of the camera maintains: pedestal, look and right are
  unit vectors, right is orthogonal to look and to the pedestal, and up is the cross
  product of right and look.
\<close>

definition frame_inv :: "Camera \<Rightarrow> bool" where
  "frame_inv c =
     (norm_v (pedestal c) = 1 \<and> norm_v (look c) = 1 \<and> norm_v (right c) = 1
      \<and> dot (right c) (look c) = 0 \<and> dot (right c) (pedestal c) = 0
      \<and> up c = cross (right c) (look c))"

text \<open>
  \<open>#updateRight\<close> normalizes \<open>cross(look, pedestal)\<close>; the camera is non-degenerate
  when \<open>normalize\<close> does not take that cross product for zero.
\<close>

definition nondegenerate :: "Camera \<Rightarrow> bool" where
  "nondegenerate c = (\<not> isZero_v (cross (look c) (pedestal c)))"

text \<open>
  The four statements of \<open>update()\<close> that apply the angles, one function each, so that
  a statement can speak of the state between two of them.
\<close>

definition update_x :: "Camera \<Rightarrow> Camera" where
  "update_x c = setXangle c (lerp (xAng c) (targetXang c) (coef_t c))"

definition update_y :: "Camera \<Rightarrow> Camera" where
  "update_y c = setYangle c (lerp (yAng c) (targetYang c) (coef_t c))"

definition update_r :: "Camera \<Rightarrow> Camera" where
  "update_r c = setRInclinAng c (lerp (rInclinAng c) (targetRInclinAng c) (coef_t c))"

definition update_f :: "Camera \<Rightarrow> Camera" where
  "update_f c = setFInclinAng c (lerp (fInclinAng c) (targetFInclinAng c) (coef_t c))"

text \<open>A mutator that leaves the four vectors of the frame as they were.\<close>

definition same_vectors :: "Camera \<Rightarrow> Camera \<Rightarrow> bool" where
  "same_vectors c c' =
     (look c' = look c \<and> right c' = right c \<and> up c' = up c \<and> pedestal c' = pedestal c)"

text \<open>
  A unit look direction raised above the plane orthogonal to the pedestal \<open>(0,0,1)\<close>,
  with elevation \<open>\<pi>/2 - acos(4/5)\<close> (about \<open>0.927\<close>); the camera constructed
  looking along it; and that camera with its elevation bound one millionth below its
  elevation, after \<open>setSmoothness(1, 1)\<close> and \<open>rotateUp(0)\<close>.
\<close>

definition steep_look :: Vector3 where
  "steep_look = Vector3 0 (3 / 5) (4 / 5)"

definition steep_camera :: "real \<Rightarrow> Camera" where
  "steep_camera maxAbsUpAng =
     constructor (Vector3 0 0 0) (Vector3 0 0 1) steep_look 0 maxAbsUpAng"

definition stalled_camera :: Camera where
  "stalled_camera =
     rotateUp (setSmoothness (steep_camera (pi / 2 - arccos (4 / 5) - 1 / 1000000)) 1 1) 0"

text \<open>
  The level camera with the elevation bound \<open>\<pi>/2\<close> after \<open>rotateUp(\<pi>/2)\<close> and one
  \<open>update()\<close>: it looks along its pedestal. The level camera with the elevation bound
  \<open>\<pi>\<close> after \<open>rotateUp(\<pi>)\<close> and one \<open>update()\<close>: it looks backwards, its right
  vector as before. A camera constructed on the unit pedestal \<open>(0, -3/5, 4/5)\<close>.
\<close>

definition pole_camera :: Camera where
  "pole_camera = update (rotateUp (level_camera (pi / 2)) (pi / 2))"

definition flipped_camera :: Camera where
  "flipped_camera = update (rotateUp (level_camera pi) pi)"

definition tilted_camera :: Camera where
  "tilted_camera =
     constructor (Vector3 0 0 0) (Vector3 0 (- (3 / 5)) (4 / 5)) (Vector3 1 0 0) 0 (pi / 3)"

text \<open>
  A unit look direction raised by about \<open>4e-9\<close> above the plane orthogonal to the
  pedestal \<open>(0,0,1)\<close>, namely \<open>(0, (1 - q\<^sup>2)/(1 + q\<^sup>2), 2q/(1 + q\<^sup>2))\<close> for
  \<open>q = 2e-9\<close>; and the level camera with the elevation bound \<open>1e-9\<close> after
  \<open>setLookSmooth\<close> toward it.
\<close>

definition shallow_look :: Vector3 where
  "shallow_look =
     Vector3 0 (249999999999999999 / 250000000000000001) (1000000000 / 250000000000000001)"

definition grazing_camera :: Camera where
  "grazing_camera = setLookSmooth (level_camera (1 / 1000000000)) shallow_look"

section \<open>Vector algebra\<close>

lemma epsilon_pos: "0 < epsilon"
  by (simp add: epsilon_def)

lemma norm_v_sqrt_dot: "norm_v a = sqrt (dot a a)"
  by (simp add: norm_v_def dot_def)

lemma dot_self_nonneg: "0 \<le> dot a a"
  by (simp add: dot_def)

lemma norm_v_sq: "norm_v a * norm_v a = dot a a"
  by (simp add: norm_v_sqrt_dot dot_self_nonneg)

lemma dot_commute: "dot a b = dot b a"
  by (simp add: dot_def mult.commute)

lemma dot_cross_left1: "dot (cross a b) a = 0"
  by (simp add: dot_def cross_def algebra_simps)

lemma dot_cross_left2: "dot (cross a b) b = 0"
  by (simp add: dot_def cross_def algebra_simps)

lemma lagrange: "dot (cross a b) (cross a b) = dot a a * dot b b - dot a b * dot a b"
  by (simp add: dot_def cross_def algebra_simps)

lemma dot_increasedBy_left: "dot (increasedBy a b) c = dot a c + dot b c"
  by (simp add: dot_def increasedBy_def algebra_simps)

lemma dot_increasedBy_right: "dot c (increasedBy a b) = dot c a + dot c b"
  by (simp add: dot_def increasedBy_def algebra_simps)

lemma dot_times_left: "dot (times_v a k) c = k * dot a c"
  by (simp add: dot_def times_v_def algebra_simps)

lemma dot_times_right: "dot c (times_v a k) = k * dot c a"
  by (simp add: dot_def times_v_def algebra_simps)

lemma abs_component_le_norm:
  "\<bar>vx a\<bar> \<le> norm_v a" "\<bar>vy a\<bar> \<le> norm_v a" "\<bar>vz a\<bar> \<le> norm_v a"
  unfolding norm_v_def
  by (rule real_le_rsqrt, simp add: power2_eq_square)+

lemma isZero_v_norm_small: "norm_v a < epsilon \<Longrightarrow> isZero_v a"
  using abs_component_le_norm[of a] by (simp add: isZero_v_def isZero_def)

lemma not_isZero_v_norm: "\<not> isZero_v a \<Longrightarrow> epsilon < norm_v a"
  using abs_component_le_norm[of a] by (auto simp add: isZero_v_def isZero_def)

lemma unit_component_le_1:
  assumes "dot b b = 1"
  shows "\<bar>vx b\<bar> \<le> 1" "\<bar>vy b\<bar> \<le> 1" "\<bar>vz b\<bar> \<le> 1"
  using abs_component_le_norm[of b] assms by (simp_all add: norm_v_sqrt_dot)

subsection \<open>The two rotations\<close>

lemma aOrth_of_orth: "dot b b \<noteq> 0 \<Longrightarrow> dot (aOrth_of a b) b = 0"
  by (simp add: aOrth_of_def aParallel_of_def dot_increasedBy_left dot_times_left)

lemma norm_cross_unit_orth:
  assumes "dot b b = 1" "dot b c = 0"
  shows "norm_v (cross b c) = norm_v c"
  using assms by (simp add: norm_v_sqrt_dot lagrange)

text \<open>For a unit axis, \<open>rotateAbout\<close> is Rodrigues' formula on the orthogonal part.\<close>

lemma rotateAbout_unit:
  assumes b: "dot b b = 1" and big: "\<not> norm_v (aOrth_of a b) < epsilon"
  shows "rotateAbout a b r =
     increasedBy (increasedBy (times_v (aOrth_of a b) (cos r))
                              (times_v (cross b (aOrth_of a b)) (sin r)))
                 (aParallel_of a b)"
proof -
  let ?o = "aOrth_of a b"
  have orth: "dot b ?o = 0"
    using aOrth_of_orth[of b a] b by (simp add: dot_commute)
  have nw: "norm_v (cross b ?o) = norm_v ?o"
    by (rule norm_cross_unit_orth[OF b orth])
  have pos: "norm_v ?o \<noteq> 0"
    using big epsilon_pos by auto
  show ?thesis
    using big pos
    by (simp add: rotateAbout_def Let_def nw increasedBy_def times_v_def distrib_left)
qed

lemma aOrth_of_already_orth: "dot a b = 0 \<Longrightarrow> aOrth_of a b = a"
  by (cases a) (simp add: aOrth_of_def aParallel_of_def increasedBy_def times_v_def)

lemma aParallel_of_already_orth: "dot a b = 0 \<Longrightarrow> aParallel_of a b = Vector3 0 0 0"
  by (simp add: aParallel_of_def times_v_def)

lemma rotateAbout_orth_big:
  assumes b: "dot b b = 1" and ab: "dot a b = 0" and big: "\<not> norm_v a < epsilon"
  shows "rotateAbout a b r = increasedBy (times_v a (cos r)) (times_v (cross b a) (sin r))"
  using rotateAbout_unit[of b a r] b ab big
  by (simp add: aOrth_of_already_orth aParallel_of_already_orth increasedBy_def)

lemma rotateAbout_small: "norm_v (aOrth_of a b) < epsilon \<Longrightarrow> rotateAbout a b r = a"
  by (simp add: rotateAbout_def Let_def)

lemma aOrth_of_parallel:
  assumes "dot b b \<noteq> 0"
  shows "aOrth_of (times_v b k) b = Vector3 0 0 0"
proof -
  have "aParallel_of (times_v b k) b = times_v b k"
    using assms by (simp add: aParallel_of_def dot_times_left)
  then show ?thesis
    by (simp add: aOrth_of_def) (simp add: increasedBy_def times_v_def)
qed

lemma within_tolerance_refl: "within_tolerance u u"
  by (simp add: within_tolerance_def)

text \<open>
  A receiver whose components are all within epsilon of zero moves by less than the
  tolerance when it is rotated about a unit axis.
\<close>

lemma small_rotation_close:
  assumes b: "dot b b = 1" and z: "isZero_v a"
  shows "within_tolerance (increasedBy (times_v a (cos r)) (times_v (cross b a) (sin r))) a"
proof -
  have ax: "\<bar>vx a\<bar> \<le> epsilon" and ay: "\<bar>vy a\<bar> \<le> epsilon" and az: "\<bar>vz a\<bar> \<le> epsilon"
    using z by (simp_all add: isZero_v_def isZero_def)
  note bb = unit_component_le_1[OF b]
  have prod: "\<bar>p * q\<bar> \<le> epsilon" if "\<bar>p\<bar> \<le> 1" "\<bar>q\<bar> \<le> epsilon" for p q :: real
  proof -
    have "\<bar>p\<bar> * \<bar>q\<bar> \<le> 1 * epsilon"
      using that by (intro mult_mono) auto
    then show ?thesis by (simp add: abs_mult)
  qed
  have c1: "\<bar>cos r\<bar> \<le> 1" and s1: "\<bar>sin r\<bar> \<le> 1" by simp_all
  have wx: "\<bar>vx (cross b a)\<bar> \<le> 2 * epsilon"
    using prod[OF bb(2) az] prod[OF bb(3) ay] by (simp add: cross_def)
  have wy: "\<bar>vy (cross b a)\<bar> \<le> 2 * epsilon"
    using prod[OF bb(3) ax] prod[OF bb(1) az] by (simp add: cross_def)
  have wz: "\<bar>vz (cross b a)\<bar> \<le> 2 * epsilon"
    using prod[OF bb(1) ay] prod[OF bb(2) ax] by (simp add: cross_def)
  have comp: "\<bar>(cos r * p + sin r * q) - p\<bar> \<le> 1 / 1000000"
    if p: "\<bar>p\<bar> \<le> epsilon" and q: "\<bar>q\<bar> \<le> 2 * epsilon" for p q :: real
  proof -
    have "\<bar>cos r * p\<bar> \<le> epsilon" using prod[OF c1 p] .
    moreover have "\<bar>sin r\<bar> * \<bar>q\<bar> \<le> 1 * (2 * epsilon)"
      using s1 q by (intro mult_mono) auto
    then have "\<bar>sin r * q\<bar> \<le> 2 * epsilon" by (simp add: abs_mult)
    ultimately have "\<bar>(cos r * p + sin r * q) - p\<bar> \<le> 4 * epsilon"
      using p by linarith
    then show ?thesis by (simp add: epsilon_def)
  qed
  show ?thesis
    using comp[OF ax wx] comp[OF ay wy] comp[OF az wz]
    by (simp add: within_tolerance_def increasedBy_def times_v_def)
qed

section \<open>What each step of the camera leaves alone\<close>

lemma actuallyRotateLeft_keeps:
  "position (actuallyRotateLeft c r) = position c"
  "targetPosition (actuallyRotateLeft c r) = targetPosition c"
  "coef_s (actuallyRotateLeft c r) = coef_s c"
  "coef_t (actuallyRotateLeft c r) = coef_t c"
  "pedestal (actuallyRotateLeft c r) = pedestal c"
  "yAng (actuallyRotateLeft c r) = yAng c"
  "rInclinAng (actuallyRotateLeft c r) = rInclinAng c"
  "fInclinAng (actuallyRotateLeft c r) = fInclinAng c"
  "targetXang (actuallyRotateLeft c r) = targetXang c"
  "targetYang (actuallyRotateLeft c r) = targetYang c"
  "targetRInclinAng (actuallyRotateLeft c r) = targetRInclinAng c"
  "targetFInclinAng (actuallyRotateLeft c r) = targetFInclinAng c"
  "maxUpAng (actuallyRotateLeft c r) = maxUpAng c"
  "minUpAng (actuallyRotateLeft c r) = minUpAng c"
  by (simp_all add: actuallyRotateLeft_def Let_def updateUp_def updateRight_def)

lemma actuallyRotateUp_keeps:
  "position (actuallyRotateUp c r) = position c"
  "targetPosition (actuallyRotateUp c r) = targetPosition c"
  "coef_s (actuallyRotateUp c r) = coef_s c"
  "coef_t (actuallyRotateUp c r) = coef_t c"
  "pedestal (actuallyRotateUp c r) = pedestal c"
  "right (actuallyRotateUp c r) = right c"
  "xAng (actuallyRotateUp c r) = xAng c"
  "rInclinAng (actuallyRotateUp c r) = rInclinAng c"
  "fInclinAng (actuallyRotateUp c r) = fInclinAng c"
  "targetXang (actuallyRotateUp c r) = targetXang c"
  "targetYang (actuallyRotateUp c r) = targetYang c"
  "targetRInclinAng (actuallyRotateUp c r) = targetRInclinAng c"
  "targetFInclinAng (actuallyRotateUp c r) = targetFInclinAng c"
  "maxUpAng (actuallyRotateUp c r) = maxUpAng c"
  "minUpAng (actuallyRotateUp c r) = minUpAng c"
  by (simp_all add: actuallyRotateUp_def Let_def updateUp_def)

lemma actuallyInclineRight_keeps:
  "position (actuallyInclineRight c r) = position c"
  "targetPosition (actuallyInclineRight c r) = targetPosition c"
  "coef_s (actuallyInclineRight c r) = coef_s c"
  "coef_t (actuallyInclineRight c r) = coef_t c"
  "xAng (actuallyInclineRight c r) = xAng c"
  "yAng (actuallyInclineRight c r) = yAng c"
  "fInclinAng (actuallyInclineRight c r) = fInclinAng c"
  "targetXang (actuallyInclineRight c r) = targetXang c"
  "targetYang (actuallyInclineRight c r) = targetYang c"
  "targetRInclinAng (actuallyInclineRight c r) = targetRInclinAng c"
  "targetFInclinAng (actuallyInclineRight c r) = targetFInclinAng c"
  "maxUpAng (actuallyInclineRight c r) = maxUpAng c"
  "minUpAng (actuallyInclineRight c r) = minUpAng c"
  by (simp_all add: actuallyInclineRight_def Let_def updateUp_def updateRight_def)

lemma actuallyInclineForward_keeps:
  "position (actuallyInclineForward c r) = position c"
  "targetPosition (actuallyInclineForward c r) = targetPosition c"
  "coef_s (actuallyInclineForward c r) = coef_s c"
  "coef_t (actuallyInclineForward c r) = coef_t c"
  "right (actuallyInclineForward c r) = right c"
  "xAng (actuallyInclineForward c r) = xAng c"
  "yAng (actuallyInclineForward c r) = yAng c"
  "rInclinAng (actuallyInclineForward c r) = rInclinAng c"
  "targetXang (actuallyInclineForward c r) = targetXang c"
  "targetYang (actuallyInclineForward c r) = targetYang c"
  "targetRInclinAng (actuallyInclineForward c r) = targetRInclinAng c"
  "targetFInclinAng (actuallyInclineForward c r) = targetFInclinAng c"
  "maxUpAng (actuallyInclineForward c r) = maxUpAng c"
  "minUpAng (actuallyInclineForward c r) = minUpAng c"
  by (simp_all add: actuallyInclineForward_def Let_def updateUp_def)

lemmas step_keeps = actuallyRotateLeft_keeps actuallyRotateUp_keeps
  actuallyInclineRight_keeps actuallyInclineForward_keeps

lemmas set_defs = setXangle_def setYangle_def setRInclinAng_def setFInclinAng_def

lemma lerp_one: "lerp a b 1 = b"
  by (simp add: lerp_def)

lemma lerp_same: "lerp a a t = a"
  by (simp add: lerp_def)

lemma lerp_v_one: "lerp_v p q 1 = q"
  by (cases q) (simp add: lerp_v_def lerp_one)

lemma norm_v_times: "norm_v (times_v a k) = \<bar>k\<bar> * norm_v a"
proof -
  have "dot (times_v a k) (times_v a k) = k\<^sup>2 * dot a a"
    by (simp add: dot_times_left dot_times_right power2_eq_square)
  then show ?thesis
    by (simp add: norm_v_sqrt_dot real_sqrt_mult)
qed

lemma difference_lerp_v:
  "difference (lerp_v p q s) q = times_v (difference p q) (1 - s)"
  by (simp add: lerp_v_def lerp_def difference_def increasedBy_def times_v_def algebra_simps)

lemma distanceTo_lerp_v: "distanceTo (lerp_v p q s) q = \<bar>1 - s\<bar> * distanceTo p q"
  by (simp add: distanceTo_def difference_lerp_v norm_v_times)

lemma position_update:
  "position (update c) = lerp_v (position c) (targetPosition c) (coef_s c)"
  by (simp add: update_def Let_def set_defs step_keeps)

lemma xAng_actuallyRotateLeft:
  "xAng (actuallyRotateLeft c r) = (if isZero r then xAng c else xAng c + r)"
  by (simp add: actuallyRotateLeft_def Let_def updateUp_def updateRight_def)

lemma yAng_actuallyRotateUp:
  "yAng (actuallyRotateUp c r) =
     (if isZero r then yAng c
      else if yAng c + r > maxUpAng c then maxUpAng c
      else if yAng c + r < minUpAng c then minUpAng c
      else yAng c + r)"
  by (simp add: actuallyRotateUp_def updateUp_def)

lemma look_actuallyRotateUp:
  "look (actuallyRotateUp c r) =
     (if isZero r then look c
      else if yAng c + r > maxUpAng c
        then rotateAboutOrthogonal (look c) (right c) (maxUpAng c - yAng c)
      else if yAng c + r < minUpAng c
        then rotateAboutOrthogonal (look c) (right c) (minUpAng c - yAng c)
      else rotateAboutOrthogonal (look c) (right c) r)"
  by (simp add: actuallyRotateUp_def updateUp_def)

lemma rInclinAng_actuallyInclineRight:
  "rInclinAng (actuallyInclineRight c r) =
     (if \<bar>r\<bar> < epsilon then rInclinAng c else rInclinAng c + r)"
  by (simp add: actuallyInclineRight_def Let_def updateUp_def updateRight_def)

lemma fInclinAng_actuallyInclineForward:
  "fInclinAng (actuallyInclineForward c r) =
     (if \<bar>r\<bar> < epsilon then fInclinAng c else fInclinAng c + r)"
  by (simp add: actuallyInclineForward_def Let_def updateUp_def)

lemma xAng_update:
  "xAng (update c) =
     (if isZero (lerp (xAng c) (targetXang c) (coef_t c) - xAng c) then xAng c
      else lerp (xAng c) (targetXang c) (coef_t c))"
  by (simp add: update_def Let_def set_defs step_keeps xAng_actuallyRotateLeft)

lemma yAng_update:
  "yAng (update c) =
     (let r = lerp (yAng c) (targetYang c) (coef_t c) - yAng c
      in if isZero r then yAng c
         else if yAng c + r > maxUpAng c then maxUpAng c
         else if yAng c + r < minUpAng c then minUpAng c
         else yAng c + r)"
  by (simp add: update_def Let_def set_defs step_keeps yAng_actuallyRotateUp)

lemma rInclinAng_update:
  "rInclinAng (update c) =
     (if \<bar>lerp (rInclinAng c) (targetRInclinAng c) (coef_t c) - rInclinAng c\<bar> < epsilon
      then rInclinAng c else lerp (rInclinAng c) (targetRInclinAng c) (coef_t c))"
  by (simp add: update_def Let_def set_defs step_keeps rInclinAng_actuallyInclineRight)

lemma fInclinAng_update:
  "fInclinAng (update c) =
     (if \<bar>lerp (fInclinAng c) (targetFInclinAng c) (coef_t c) - fInclinAng c\<bar> < epsilon
      then fInclinAng c else lerp (fInclinAng c) (targetFInclinAng c) (coef_t c))"
  by (simp add: update_def Let_def set_defs step_keeps fInclinAng_actuallyInclineForward)

lemma targets_update:
  "targetXang (update c) = targetXang c" "targetYang (update c) = targetYang c"
  "targetRInclinAng (update c) = targetRInclinAng c"
  "targetFInclinAng (update c) = targetFInclinAng c"
  "maxUpAng (update c) = maxUpAng c" "minUpAng (update c) = minUpAng c"
  "coef_t (update c) = coef_t c" "coef_s (update c) = coef_s c"
  by (simp_all add: update_def Let_def set_defs step_keeps)

lemma clamp_range: "low \<le> high \<Longrightarrow> low \<le> clamp low x high \<and> clamp low x high \<le> high"
  by (simp add: clamp_def)

lemma actuallyRotateUp_0: "actuallyRotateUp c 0 = c"
  by (simp add: actuallyRotateUp_def isZero_def epsilon_def)

lemma actuallyInclineRight_0: "actuallyInclineRight c 0 = c"
  by (simp add: actuallyInclineRight_def epsilon_def)

lemma actuallyInclineForward_0: "actuallyInclineForward c 0 = c"
  by (simp add: actuallyInclineForward_def epsilon_def)

lemma actuallyRotateLeft_0: "actuallyRotateLeft c 0 = c"
  by (simp add: actuallyRotateLeft_def isZero_def epsilon_def)

text \<open>When only the horizontal angle has a pending target, a tick is the horizontal step.\<close>

lemma update_only_x:
  assumes "targetYang c = yAng c" "targetRInclinAng c = rInclinAng c"
    "targetFInclinAng c = fInclinAng c"
  shows "update c =
    (actuallyRotateLeft c (lerp (xAng c) (targetXang c) (coef_t c) - xAng c))
      \<lparr>position := lerp_v (position c) (targetPosition c) (coef_s c)\<rparr>"
  using assms
  by (simp add: update_def Let_def set_defs step_keeps lerp_same actuallyRotateUp_0
      actuallyInclineRight_0 actuallyInclineForward_0)

text \<open>Likewise for the elevation and for the right inclination.\<close>

lemma update_only_y:
  assumes "targetXang c = xAng c" "targetRInclinAng c = rInclinAng c"
    "targetFInclinAng c = fInclinAng c"
  shows "update c =
    (actuallyRotateUp c (lerp (yAng c) (targetYang c) (coef_t c) - yAng c))
      \<lparr>position := lerp_v (position c) (targetPosition c) (coef_s c)\<rparr>"
  using assms
  by (simp add: update_def Let_def set_defs step_keeps lerp_same actuallyRotateLeft_0
      actuallyInclineRight_0 actuallyInclineForward_0)

lemma update_only_r:
  assumes "targetXang c = xAng c" "targetYang c = yAng c"
    "targetFInclinAng c = fInclinAng c"
  shows "update c =
    (actuallyInclineRight c (lerp (rInclinAng c) (targetRInclinAng c) (coef_t c) - rInclinAng c))
      \<lparr>position := lerp_v (position c) (targetPosition c) (coef_s c)\<rparr>"
  using assms
  by (simp add: update_def Let_def set_defs step_keeps lerp_same actuallyRotateLeft_0
      actuallyRotateUp_0 actuallyInclineForward_0)

subsection \<open>The example camera, evaluated\<close>

lemmas vec_defs = changeHand_def normalize_v_def isZero_v_def isZero_def epsilon_def norm_v_def
  cross_def dot_def increasedBy_def times_v_def

lemma level_camera_eval:
  "level_camera m =
     \<lparr>position = Vector3 0 0 0, pedestal = Vector3 0 0 1, horizontal = Vector3 0 (- 1) 0,
      look = Vector3 0 (- 1) 0, right = Vector3 (- 1) 0 0, up = Vector3 0 0 1,
      coef_t = 1, coef_s = 1, xAng = 0, yAng = 0, targetXang = 0, targetYang = 0,
      rInclinAng = 0, fInclinAng = 0, targetRInclinAng = 0, targetFInclinAng = 0,
      targetPosition = Vector3 0 0 0, maxUpAng = m, minUpAng = - m\<rparr>"
  by (simp add: level_camera_def constructor_def Let_def vec_defs angleBetween_def
      rotateAboutOrthogonal_def changeAngleHand_def)

lemma pi_half_not_isZero: "\<not> isZero (pi / 2)"
  using pi_ge_two by (simp add: isZero_def epsilon_def)

lemma quarter_turn_look:
  "rotateAbout (Vector3 0 (- 1) 0) (Vector3 0 0 1) (pi / 2) = Vector3 1 0 0"
  by (simp add: rotateAbout_def Let_def aOrth_of_def aParallel_of_def vec_defs)

lemma level_quarter_turn:
  "actuallyRotateLeft (rotateLeft (level_camera m) (pi / 2)) (pi / 2) =
     (level_camera m)\<lparr>look := Vector3 1 0 0, right := Vector3 0 (- 1) 0, up := Vector3 0 0 1,
        xAng := pi / 2, targetXang := pi / 2\<rparr>"
  using pi_half_not_isZero
  by (simp add: level_camera_eval rotateLeft_def actuallyRotateLeft_def Let_def
      quarter_turn_look updateUp_def updateRight_def)
     (simp add: vec_defs)

section \<open>Rotations keep unit vectors unit\<close>

lemma norm_v_1_iff: "norm_v a = 1 \<longleftrightarrow> dot a a = 1"
  by (simp add: norm_v_sqrt_dot)

lemma unit_not_isZero_v:
  assumes "dot a a = 1"
  shows "\<not> isZero_v a"
proof
  assume z: "isZero_v a"
  have sq: "p * p \<le> epsilon * epsilon" if "\<bar>p\<bar> \<le> epsilon" for p :: real
  proof -
    have "\<bar>p\<bar> * \<bar>p\<bar> \<le> epsilon * epsilon"
      using that by (intro mult_mono) auto
    then show ?thesis by simp
  qed
  have "dot a a \<le> 3 * (epsilon * epsilon)"
    using z sq[of "vx a"] sq[of "vy a"] sq[of "vz a"]
    by (simp add: isZero_v_def isZero_def dot_def)
  then show False using assms by (simp add: epsilon_def)
qed

lemma normalize_times: "\<not> isZero_v v \<Longrightarrow> normalize_v v = times_v v (1 / norm_v v)"
  by (simp add: normalize_v_def Let_def times_v_def)

lemma normalize_unit:
  assumes "\<not> isZero_v v"
  shows "dot (normalize_v v) (normalize_v v) = 1"
proof -
  have pos: "norm_v v \<noteq> 0"
    using not_isZero_v_norm[OF assms] epsilon_pos by auto
  have "dot (normalize_v v) (normalize_v v) = dot v v / (norm_v v * norm_v v)"
    by (simp add: normalize_times[OF assms] dot_times_left dot_times_right)
  also have "\<dots> = 1"
    using pos by (simp add: norm_v_sq[symmetric])
  finally show ?thesis .
qed

lemma normalize_orth: "dot v w = 0 \<Longrightarrow> dot (normalize_v v) w = 0"
  by (cases "isZero_v v") (simp_all add: normalize_times dot_times_left, simp add: normalize_v_def)

lemma normalize_of_unit: "dot v v = 1 \<Longrightarrow> normalize_v v = v"
  using unit_not_isZero_v[of v]
  by (cases v) (simp add: normalize_v_def Let_def norm_v_sqrt_dot)

lemma rotateAboutOrthogonal_unit:
  assumes a: "dot a a = 1" and b: "dot b b = 1" and ab: "dot b a = 0"
  shows "dot (rotateAboutOrthogonal a b r) (rotateAboutOrthogonal a b r) = 1"
    and "dot b (rotateAboutOrthogonal a b r) = 0"
proof -
  have R: "rotateAboutOrthogonal a b r =
      increasedBy (times_v a (cos r)) (times_v (cross b a) (sin r))"
    using unit_not_isZero_v[OF a] by (simp add: rotateAboutOrthogonal_def)
  have w: "dot (cross b a) (cross b a) = 1"
    using a b ab by (simp add: lagrange)
  have aw: "dot a (cross b a) = 0" "dot (cross b a) a = 0" "dot b (cross b a) = 0"
    using dot_cross_left1[of b a] dot_cross_left2[of b a] by (simp_all add: dot_commute)
  have "dot (rotateAboutOrthogonal a b r) (rotateAboutOrthogonal a b r) =
      cos r * cos r + sin r * sin r"
    unfolding R
    by (simp add: dot_increasedBy_left dot_increasedBy_right dot_times_left dot_times_right
        a w aw)
  then show "dot (rotateAboutOrthogonal a b r) (rotateAboutOrthogonal a b r) = 1"
    by simp
  show "dot b (rotateAboutOrthogonal a b r) = 0"
    unfolding R
    by (simp add: dot_increasedBy_right dot_times_right ab aw)
qed

lemma a_decomp: "a = increasedBy (aOrth_of a b) (aParallel_of a b)"
  by (cases a) (simp add: aOrth_of_def increasedBy_def times_v_def)

lemma rotateAbout_unit_axis:
  assumes b: "dot b b = 1"
  shows "dot (rotateAbout a b r) (rotateAbout a b r) = dot a a"
    and "dot (rotateAbout a b r) b = dot a b"
proof -
  let ?o = "aOrth_of a b" and ?p = "aParallel_of a b"
  let ?w = "cross b ?o"
  have ob: "dot ?o b = 0" "dot b ?o = 0"
    using aOrth_of_orth[of b a] b by (simp_all add: dot_commute)
  have p: "?p = times_v b (dot a b)"
    using b by (simp add: aParallel_of_def)
  have op: "dot ?o ?p = 0" "dot ?p ?o = 0"
    using ob by (simp_all add: p dot_times_left dot_times_right)
  have ww: "dot ?w ?w = dot ?o ?o"
    using b ob by (simp add: lagrange)
  have wo: "dot ?w ?o = 0" "dot ?o ?w = 0" "dot ?w b = 0"
    using dot_cross_left1[of b ?o] dot_cross_left2[of b ?o] by (simp_all add: dot_commute)
  have wp: "dot ?w ?p = 0" "dot ?p ?w = 0"
    using wo by (simp_all add: p dot_times_left dot_times_right dot_commute)
  have aa: "dot a a = dot ?o ?o + dot ?p ?p"
    using op
    by (subst a_decomp[of a b], subst (3) a_decomp[of a b])
       (simp add: dot_increasedBy_left dot_increasedBy_right)
  have ab: "dot a b = dot ?p b"
    using ob by (subst a_decomp[of a b]) (simp add: dot_increasedBy_left)
  show "dot (rotateAbout a b r) (rotateAbout a b r) = dot a a"
  proof (cases "norm_v ?o < epsilon")
    case True
    then show ?thesis by (simp add: rotateAbout_small)
  next
    case False
    have cs: "cos r * (cos r * X) + sin r * (sin r * X) = X" for X :: real
    proof -
      have "cos r * (cos r * X) + sin r * (sin r * X) = (cos r * cos r + sin r * sin r) * X"
        by (simp only: distrib_right mult.assoc)
      then show ?thesis by simp
    qed
    have "dot (rotateAbout a b r) (rotateAbout a b r) =
        cos r * (cos r * dot ?o ?o) + sin r * (sin r * dot ?o ?o) + dot ?p ?p"
      unfolding rotateAbout_unit[OF b False]
      by (simp add: dot_increasedBy_left dot_increasedBy_right dot_times_left dot_times_right
          op ww wo wp)
    then show ?thesis by (simp only: cs aa)
  qed
  show "dot (rotateAbout a b r) b = dot a b"
  proof (cases "norm_v ?o < epsilon")
    case True
    then show ?thesis by (simp add: rotateAbout_small)
  next
    case False
    show ?thesis
      unfolding rotateAbout_unit[OF b False]
      by (simp add: dot_increasedBy_left dot_times_left ob wo ab)
  qed
qed

section \<open>The frame of the camera\<close>

lemma update_stages:
  "update c =
     (let c4 = update_f (update_r (update_y (update_x c)))
      in c4\<lparr>position := lerp_v (position c4) (targetPosition c4) (coef_s c4)\<rparr>)"
  by (simp add: update_def update_x_def update_y_def update_r_def update_f_def Let_def)

lemma frame_inv_orthonormal:
  assumes "frame_inv c"
  shows "orthonormal (right c) (up c) (look c)"
proof -
  from assms have l: "dot (look c) (look c) = 1" and r: "dot (right c) (right c) = 1"
    and rl: "dot (right c) (look c) = 0" and u: "up c = cross (right c) (look c)"
    by (simp_all add: frame_inv_def norm_v_1_iff)
  have uu: "dot (up c) (up c) = 1"
    by (simp add: u lagrange l r rl)
  have ru: "dot (right c) (up c) = 0" and ul: "dot (up c) (look c) = 0"
    using dot_cross_left1[of "right c" "look c"] dot_cross_left2[of "right c" "look c"]
    by (simp_all add: u dot_commute)
  show ?thesis
    by (simp add: orthonormal_def norm_v_1_iff l r uu ru rl ul)
qed

lemma recompute_frame:
  assumes p: "dot (pedestal c) (pedestal c) = 1" and l: "dot (look c) (look c) = 1"
    and nd: "\<not> isZero_v (cross (look c) (pedestal c))"
  shows "frame_inv (updateUp (updateRight c))"
proof -
  let ?r = "normalize_v (cross (look c) (pedestal c))"
  have "dot ?r ?r = 1" by (rule normalize_unit[OF nd])
  moreover have "dot ?r (look c) = 0"
    by (rule normalize_orth) (rule dot_cross_left1)
  moreover have "dot ?r (pedestal c) = 0"
    by (rule normalize_orth) (rule dot_cross_left2)
  ultimately show ?thesis
    using p l by (simp add: frame_inv_def norm_v_1_iff updateUp_def updateRight_def)
qed

lemma frame_inv_ignores:
  "frame_inv (c\<lparr>xAng := a\<rparr>) = frame_inv c"
  "frame_inv (c\<lparr>yAng := a\<rparr>) = frame_inv c"
  "frame_inv (c\<lparr>rInclinAng := a\<rparr>) = frame_inv c"
  "frame_inv (c\<lparr>fInclinAng := a\<rparr>) = frame_inv c"
  "frame_inv (c\<lparr>position := q\<rparr>) = frame_inv c"
  by (simp_all add: frame_inv_def)

lemma frame_inv_actuallyRotateLeft:
  assumes inv: "frame_inv c" and nd: "nondegenerate (actuallyRotateLeft c r)"
  shows "frame_inv (actuallyRotateLeft c r)"
proof (cases "isZero r")
  case True
  then show ?thesis using inv by (simp add: actuallyRotateLeft_def)
next
  case False
  let ?c1 = "c\<lparr>look := rotateAbout (look c) (pedestal c) r\<rparr>"
  from inv have p: "dot (pedestal c) (pedestal c) = 1" and l: "dot (look c) (look c) = 1"
    by (simp_all add: frame_inv_def norm_v_1_iff)
  have p1: "dot (pedestal ?c1) (pedestal ?c1) = 1" using p by simp
  have l1: "dot (look ?c1) (look ?c1) = 1"
    using rotateAbout_unit_axis(1)[OF p, of "look c" r] l by simp
  have nd1: "\<not> isZero_v (cross (look ?c1) (pedestal ?c1))"
    using nd False
    by (simp add: nondegenerate_def actuallyRotateLeft_def Let_def updateUp_def updateRight_def)
  have "frame_inv (updateUp (updateRight ?c1))"
    by (rule recompute_frame[OF p1 l1 nd1])
  then show ?thesis
    using False by (simp add: actuallyRotateLeft_def Let_def frame_inv_ignores)
qed

lemma frame_inv_actuallyRotateUp:
  assumes inv: "frame_inv c"
  shows "frame_inv (actuallyRotateUp c r)"
proof -
  from inv have p: "dot (pedestal c) (pedestal c) = 1" and l: "dot (look c) (look c) = 1"
    and rr: "dot (right c) (right c) = 1" and rl: "dot (right c) (look c) = 0"
    and rp: "dot (right c) (pedestal c) = 0"
    by (simp_all add: frame_inv_def norm_v_1_iff)
  have turn: "frame_inv (updateUp (c\<lparr>look := rotateAboutOrthogonal (look c) (right c) a,
      yAng := y\<rparr>))" for a y
    using rotateAboutOrthogonal_unit[OF l rr rl, of a] p rr rp
    by (simp add: frame_inv_def norm_v_1_iff updateUp_def)
  show ?thesis
    using inv turn by (simp add: actuallyRotateUp_def)
qed

lemma frame_inv_actuallyInclineForward:
  assumes inv: "frame_inv c"
  shows "frame_inv (actuallyInclineForward c r)"
proof (cases "\<bar>r\<bar> < epsilon")
  case True
  then show ?thesis using inv by (simp add: actuallyInclineForward_def)
next
  case False
  from inv have p: "dot (pedestal c) (pedestal c) = 1" and l: "dot (look c) (look c) = 1"
    and rr: "dot (right c) (right c) = 1" and rl: "dot (right c) (look c) = 0"
    and rp: "dot (right c) (pedestal c) = 0"
    by (simp_all add: frame_inv_def norm_v_1_iff)
  have pr: "dot (pedestal c) (right c) = 0" using rp by (simp add: dot_commute)
  have p': "dot (rotateAbout (pedestal c) (right c) r) (rotateAbout (pedestal c) (right c) r) = 1"
    and rp': "dot (right c) (rotateAbout (pedestal c) (right c) r) = 0"
    using rotateAbout_unit_axis[OF rr, of "pedestal c" r] p pr
    by (simp_all add: dot_commute)
  show ?thesis
    using False rotateAboutOrthogonal_unit[OF l rr rl, of r] p' rp' rr
    by (simp add: actuallyInclineForward_def Let_def frame_inv_def norm_v_1_iff updateUp_def)
qed

lemma frame_inv_actuallyInclineRight:
  assumes inv: "frame_inv c" and nd: "nondegenerate (actuallyInclineRight c r)"
  shows "frame_inv (actuallyInclineRight c r)"
proof (cases "\<bar>r\<bar> < epsilon")
  case True
  then show ?thesis using inv by (simp add: actuallyInclineRight_def)
next
  case False
  from inv have p: "dot (pedestal c) (pedestal c) = 1" and l: "dot (look c) (look c) = 1"
    and rr: "dot (right c) (right c) = 1" and rp: "dot (right c) (pedestal c) = 0"
    by (simp_all add: frame_inv_def norm_v_1_iff)
  let ?axis = "cross (pedestal c) (right c)"
  let ?c2 = "c\<lparr>pedestal := rotateAboutOrthogonal (pedestal c) ?axis r,
               look := rotateAbout (look c) ?axis r\<rparr>"
  have ax: "dot ?axis ?axis = 1"
    using p rr rp by (simp add: lagrange dot_commute)
  have axp: "dot ?axis (pedestal c) = 0" by (rule dot_cross_left1)
  have p2: "dot (pedestal ?c2) (pedestal ?c2) = 1"
    using rotateAboutOrthogonal_unit(1)[OF p ax axp, of r] by simp
  have l2: "dot (look ?c2) (look ?c2) = 1"
    using rotateAbout_unit_axis(1)[OF ax, of "look c" r] l by simp
  have nd2: "\<not> isZero_v (cross (look ?c2) (pedestal ?c2))"
    using nd False
    by (simp add: nondegenerate_def actuallyInclineRight_def Let_def updateUp_def
        updateRight_def)
  have "frame_inv (updateUp (updateRight ?c2))"
    by (rule recompute_frame[OF p2 l2 nd2])
  then show ?thesis
    using False by (simp add: actuallyInclineRight_def Let_def frame_inv_ignores)
qed

text \<open>
  A tick keeps the frame when each of the two steps that recompute \<open>right\<close> is skipped
  or leaves the camera non-degenerate.
\<close>

lemma frame_inv_update_steps:
  assumes inv: "frame_inv c"
    and ndx: "update_x c = c \<or> nondegenerate (update_x c)"
    and ndr: "update_r (update_y (update_x c)) = update_y (update_x c)
              \<or> nondegenerate (update_r (update_y (update_x c)))"
  shows "frame_inv (update c)"
proof -
  have x: "frame_inv (update_x c)"
  proof (cases "update_x c = c")
    case True then show ?thesis using inv by simp
  next
    case False
    then have "nondegenerate (update_x c)" using ndx by simp
    then show ?thesis
      using frame_inv_actuallyRotateLeft[OF inv] by (simp add: update_x_def setXangle_def)
  qed
  have y: "frame_inv (update_y (update_x c))"
    using frame_inv_actuallyRotateUp[OF x] by (simp add: update_y_def setYangle_def)
  have r: "frame_inv (update_r (update_y (update_x c)))"
  proof (cases "update_r (update_y (update_x c)) = update_y (update_x c)")
    case True then show ?thesis using y by simp
  next
    case False
    then have "nondegenerate (update_r (update_y (update_x c)))" using ndr by simp
    then show ?thesis
      using frame_inv_actuallyInclineRight[OF y] by (simp add: update_r_def setRInclinAng_def)
  qed
  have f: "frame_inv (update_f (update_r (update_y (update_x c))))"
    using frame_inv_actuallyInclineForward[OF r] by (simp add: update_f_def setFInclinAng_def)
  show ?thesis
    using f by (simp add: update_stages Let_def frame_inv_ignores)
qed

lemma dot_changeHand: "dot (changeHand a) (changeHand b) = dot a b"
  by (simp add: dot_def changeHand_def)

lemma setLook_vectors:
  "look (setLook c l) = normalize_v (changeHand l)"
  "pedestal (setLook c l) = pedestal c"
  "right (setLook c l) = normalize_v (cross (normalize_v (changeHand l)) (pedestal c))"
  "up (setLook c l) = cross (right (setLook c l)) (look (setLook c l))"
  by (simp_all add: setLook_def updateUp_def updateRight_def updateAngles_def Let_def)

lemma construct_vectors:
  "look (constructor p d l xa m) = normalize_v (changeHand l)"
  "pedestal (constructor p d l xa m) = normalize_v (changeHand d)"
  "right (constructor p d l xa m) =
     normalize_v (cross (normalize_v (changeHand l)) (normalize_v (changeHand d)))"
  "up (constructor p d l xa m) =
     cross (right (constructor p d l xa m)) (look (constructor p d l xa m))"
  by (simp_all add: constructor_def Let_def)

lemma frame_from_vectors:
  assumes p: "dot pd pd = 1" and l: "dot lk lk = 1" and nd: "\<not> isZero_v (cross lk pd)"
    and cp: "pedestal c = pd" and cl: "look c = lk"
    and cr: "right c = normalize_v (cross lk pd)" and cu: "up c = cross (right c) (look c)"
  shows "frame_inv c"
proof -
  let ?r = "normalize_v (cross lk pd)"
  have "dot ?r ?r = 1" by (rule normalize_unit[OF nd])
  moreover have "dot ?r lk = 0"
    by (rule normalize_orth) (rule dot_cross_left1)
  moreover have "dot ?r pd = 0"
    by (rule normalize_orth) (rule dot_cross_left2)
  ultimately show ?thesis
    using p l cu by (simp add: frame_inv_def norm_v_1_iff cp cl cr)
qed

lemma frame_inv_construct:
  assumes d: "norm_v d = 1" and l: "norm_v l = 1"
    and nd: "\<not> isZero_v (cross (changeHand l) (changeHand d))"
  shows "frame_inv (constructor p d l xa m)"
proof -
  have d1: "dot (changeHand d) (changeHand d) = 1" and l1: "dot (changeHand l) (changeHand l) = 1"
    using d l by (simp_all add: dot_changeHand norm_v_1_iff)
  show ?thesis
    by (rule frame_from_vectors[OF d1 l1 nd])
       (simp_all add: construct_vectors normalize_of_unit[OF d1] normalize_of_unit[OF l1])
qed

lemma frame_inv_setLook_any:
  assumes d: "norm_v (pedestal c) = 1" and l: "\<not> isZero_v l"
    and nd: "nondegenerate (setLook c l)"
  shows "frame_inv (setLook c l)"
proof -
  have d1: "dot (pedestal c) (pedestal c) = 1"
    using d by (simp add: norm_v_1_iff)
  have nz: "\<not> isZero_v (changeHand l)"
    using l by (simp add: isZero_v_def changeHand_def isZero_def)
  have l1: "dot (normalize_v (changeHand l)) (normalize_v (changeHand l)) = 1"
    by (rule normalize_unit[OF nz])
  have nd': "\<not> isZero_v (cross (normalize_v (changeHand l)) (pedestal c))"
    using nd by (simp add: nondegenerate_def setLook_vectors)
  show ?thesis
    by (rule frame_from_vectors[OF d1 l1 nd']) (simp_all add: setLook_vectors)
qed

lemma update_y_idle: "targetYang c = yAng c \<Longrightarrow> update_y c = c"
  by (simp add: update_y_def setYangle_def lerp_same actuallyRotateUp_0)

lemma update_r_idle: "targetRInclinAng c = rInclinAng c \<Longrightarrow> update_r c = c"
  by (simp add: update_r_def setRInclinAng_def lerp_same actuallyInclineRight_0)

lemma quarter_turn_stages:
  "update_x (rotateLeft (level_camera m) (pi / 2)) =
     (level_camera m)\<lparr>look := Vector3 1 0 0, right := Vector3 0 (- 1) 0, up := Vector3 0 0 1,
        xAng := pi / 2, targetXang := pi / 2\<rparr>"
  "update_r (update_y ((level_camera m)\<lparr>look := Vector3 1 0 0, right := Vector3 0 (- 1) 0,
        up := Vector3 0 0 1, xAng := pi / 2, targetXang := pi / 2\<rparr>)) =
     (level_camera m)\<lparr>look := Vector3 1 0 0, right := Vector3 0 (- 1) 0, up := Vector3 0 0 1,
        xAng := pi / 2, targetXang := pi / 2\<rparr>"
proof -
  have d: "lerp (xAng (rotateLeft (level_camera m) (pi / 2)))
      (targetXang (rotateLeft (level_camera m) (pi / 2)))
      (coef_t (rotateLeft (level_camera m) (pi / 2)))
      - xAng (rotateLeft (level_camera m) (pi / 2)) = pi / 2"
    by (simp add: rotateLeft_def level_camera_eval lerp_one)
  show "update_x (rotateLeft (level_camera m) (pi / 2)) =
     (level_camera m)\<lparr>look := Vector3 1 0 0, right := Vector3 0 (- 1) 0, up := Vector3 0 0 1,
        xAng := pi / 2, targetXang := pi / 2\<rparr>"
    unfolding update_x_def setXangle_def Let_def d by (rule level_quarter_turn)
  show "update_r (update_y ((level_camera m)\<lparr>look := Vector3 1 0 0, right := Vector3 0 (- 1) 0,
        up := Vector3 0 0 1, xAng := pi / 2, targetXang := pi / 2\<rparr>)) =
     (level_camera m)\<lparr>look := Vector3 1 0 0, right := Vector3 0 (- 1) 0, up := Vector3 0 0 1,
        xAng := pi / 2, targetXang := pi / 2\<rparr>"
    by (simp add: update_y_idle update_r_idle level_camera_eval)
qed

lemma look_update_y:
  "look (update_y c) =
     (let r = lerp (yAng c) (targetYang c) (coef_t c) - yAng c
      in if isZero r then look c
         else if yAng c + r > maxUpAng c
           then rotateAboutOrthogonal (look c) (right c) (maxUpAng c - yAng c)
         else if yAng c + r < minUpAng c
           then rotateAboutOrthogonal (look c) (right c) (minUpAng c - yAng c)
         else rotateAboutOrthogonal (look c) (right c) r)"
  by (simp add: update_y_def setYangle_def look_actuallyRotateUp Let_def)

lemma update_x_keeps:
  "yAng (update_x c) = yAng c" "targetYang (update_x c) = targetYang c"
  "coef_t (update_x c) = coef_t c" "maxUpAng (update_x c) = maxUpAng c"
  "minUpAng (update_x c) = minUpAng c"
  by (simp_all add: update_x_def setXangle_def step_keeps)

lemma pi_not_isZero: "\<not> isZero pi"
  using pi_ge_two by (simp add: isZero_def epsilon_def)

text \<open>
  In a frame, \<open>cross(look, pedestal)\<close> is a multiple of \<open>right\<close>; so \<open>right\<close> is
  \<open>normalize(cross(look, pedestal))\<close> exactly when the cross product is not taken for
  zero and points along \<open>right\<close>.
\<close>

lemma cross_of_frame:
  assumes rr: "dot r r = 1" and rl: "dot r l = 0" and rp: "dot r p = 0"
  shows "cross l p = times_v r (dot r (cross l p))"
proof -
  have x: "vx (cross l p) * dot r r =
      vx r * dot r (cross l p) - vx (cross r l) * dot r p + vx (cross r p) * dot r l"
    by (simp add: cross_def dot_def algebra_simps)
  have y: "vy (cross l p) * dot r r =
      vy r * dot r (cross l p) - vy (cross r l) * dot r p + vy (cross r p) * dot r l"
    by (simp add: cross_def dot_def algebra_simps)
  have z: "vz (cross l p) * dot r r =
      vz r * dot r (cross l p) - vz (cross r l) * dot r p + vz (cross r p) * dot r l"
    by (simp add: cross_def dot_def algebra_simps)
  have "vx (cross l p) = vx r * dot r (cross l p)" "vy (cross l p) = vy r * dot r (cross l p)"
    "vz (cross l p) = vz r * dot r (cross l p)"
    using x y z unfolding rr rl rp by simp_all
  then show ?thesis
    by (intro Vector3.expand) (simp add: times_v_def)
qed

lemma right_is_recomputed_iff:
  assumes inv: "frame_inv c"
  shows "(right c = normalize_v (cross (look c) (pedestal c))) =
         (nondegenerate c \<and> 0 < dot (cross (look c) (pedestal c)) (right c))"
proof -
  let ?n = "cross (look c) (pedestal c)" and ?r = "right c"
  from inv have rr: "dot ?r ?r = 1" and rl: "dot ?r (look c) = 0"
    and rp: "dot ?r (pedestal c) = 0"
    by (simp_all add: frame_inv_def norm_v_1_iff)
  have n: "?n = times_v ?r (dot ?r ?n)" by (rule cross_of_frame[OF rr rl rp])
  have nr: "norm_v ?r = 1" using rr by (simp add: norm_v_1_iff)
  have nn: "norm_v ?n = \<bar>dot ?r ?n\<bar>"
    by (subst n) (simp add: norm_v_times nr)
  show ?thesis
  proof
    assume eq: "?r = normalize_v ?n"
    have nd: "\<not> isZero_v ?n"
    proof
      assume "isZero_v ?n"
      then have "?r = ?n" using eq by (simp add: normalize_v_def)
      then show False using unit_not_isZero_v[OF rr] \<open>isZero_v ?n\<close> by simp
    qed
    have pos: "0 < norm_v ?n" using not_isZero_v_norm[OF nd] epsilon_pos by linarith
    have "dot ?n ?r = dot ?n (times_v ?n (1 / norm_v ?n))"
      using eq normalize_times[OF nd] by simp
    also have "\<dots> = norm_v ?n"
      using pos by (simp add: dot_times_right norm_v_sq[symmetric])
    finally show "nondegenerate c \<and> 0 < dot ?n ?r"
      using nd pos by (simp add: nondegenerate_def)
  next
    assume a: "nondegenerate c \<and> 0 < dot ?n ?r"
    then have nd: "\<not> isZero_v ?n" and pos: "0 < dot ?r ?n"
      by (simp_all add: nondegenerate_def dot_commute)
    have "normalize_v ?n = times_v ?n (1 / norm_v ?n)" by (rule normalize_times[OF nd])
    also have "\<dots> = times_v (times_v ?r (dot ?r ?n)) (1 / dot ?r ?n)"
      using nn pos n by simp
    also have "\<dots> = ?r"
      using pos by (cases ?r) (simp add: times_v_def)
    finally show "?r = normalize_v ?n" by simp
  qed
qed

section \<open>Cameras looking along the pedestal, and past it\<close>

lemma raise_level_camera:
  assumes "0 < a" "\<not> isZero a" "a \<le> m"
  shows "update (rotateUp (level_camera m) a) =
     (level_camera m)\<lparr>look := Vector3 0 (- cos a) (sin a), up := Vector3 0 (sin a) (cos a),
        yAng := a, targetYang := a\<rparr>"
proof -
  let ?c = "rotateUp (level_camera m) a"
  have t: "targetYang ?c = a" "yAng ?c = 0" "coef_t ?c = 1"
    using assms by (simp_all add: rotateUp_def level_camera_eval clamp_def)
  have d: "lerp (yAng ?c) (targetYang ?c) (coef_t ?c) - yAng ?c = a"
    by (simp add: t lerp_one)
  have u: "update ?c = (actuallyRotateUp ?c a)
      \<lparr>position := lerp_v (position ?c) (targetPosition ?c) (coef_s ?c)\<rparr>"
    using update_only_y[of ?c] unfolding d
    by (simp add: rotateUp_def level_camera_eval)
  have rot: "rotateAboutOrthogonal (Vector3 0 (- 1) 0) (Vector3 (- 1) 0 0) a =
      Vector3 0 (- cos a) (sin a)"
    by (simp add: rotateAboutOrthogonal_def vec_defs)
  show ?thesis
    unfolding u using assms
    by (simp add: actuallyRotateUp_def rotateUp_def level_camera_eval clamp_def updateUp_def
        rot lerp_v_one)
       (simp add: cross_def)
qed

lemma pole_camera_eval:
  "pole_camera =
     (level_camera (pi / 2))\<lparr>look := Vector3 0 0 1, up := Vector3 0 1 0,
        yAng := pi / 2, targetYang := pi / 2\<rparr>"
  unfolding pole_camera_def
  using raise_level_camera[of "pi / 2" "pi / 2"] pi_half_not_isZero pi_ge_two
  by simp

lemma flipped_camera_eval:
  "flipped_camera =
     (level_camera pi)\<lparr>look := Vector3 0 1 0, up := Vector3 0 0 (- 1),
        yAng := pi, targetYang := pi\<rparr>"
  unfolding flipped_camera_def
  using raise_level_camera[of pi pi] pi_not_isZero pi_ge_two
  by simp

lemma pole_turn:
  "right (update (rotateLeft pole_camera 1)) = Vector3 0 0 0
   \<and> up (update (rotateLeft pole_camera 1)) = Vector3 0 0 0
   \<and> look (update (rotateLeft pole_camera 1)) = Vector3 0 0 1"
proof -
  let ?c = "rotateLeft pole_camera 1"
  have d: "lerp (xAng ?c) (targetXang ?c) (coef_t ?c) - xAng ?c = 1"
    by (simp add: rotateLeft_def pole_camera_eval level_camera_eval lerp_one)
  have u: "update ?c = (actuallyRotateLeft ?c 1)
      \<lparr>position := lerp_v (position ?c) (targetPosition ?c) (coef_s ?c)\<rparr>"
    using update_only_x[of ?c] unfolding d
    by (simp add: rotateLeft_def pole_camera_eval level_camera_eval)
  have rot: "rotateAbout (Vector3 0 0 1) (Vector3 0 0 1) 1 = Vector3 0 0 1"
    by (simp add: rotateAbout_def Let_def aOrth_of_def aParallel_of_def vec_defs)
  show ?thesis
    unfolding u
    by (simp add: actuallyRotateLeft_def Let_def rotateLeft_def pole_camera_eval
        level_camera_eval updateUp_def updateRight_def rot isZero_def epsilon_def)
       (simp add: vec_defs)
qed

lemma pole_incline:
  "right (update (inclineRight pole_camera 1)) = Vector3 0 0 0
   \<and> look (update (inclineRight pole_camera 1)) = Vector3 (- sin 1) 0 (cos 1)
   \<and> pedestal (update (inclineRight pole_camera 1)) = Vector3 (- sin 1) 0 (cos 1)"
proof -
  let ?c = "inclineRight pole_camera 1"
  have d: "lerp (rInclinAng ?c) (targetRInclinAng ?c) (coef_t ?c) - rInclinAng ?c = 1"
    by (simp add: inclineRight_def pole_camera_eval level_camera_eval lerp_one)
  have u: "update ?c = (actuallyInclineRight ?c 1)
      \<lparr>position := lerp_v (position ?c) (targetPosition ?c) (coef_s ?c)\<rparr>"
    using update_only_r[of ?c] unfolding d
    by (simp add: inclineRight_def pole_camera_eval level_camera_eval)
  have ax: "cross (Vector3 0 0 1) (Vector3 (- 1) 0 0) = Vector3 0 (- 1) 0"
    by (simp add: cross_def)
  have rot: "rotateAbout (Vector3 0 0 1) (Vector3 0 (- 1) 0) 1 = Vector3 (- sin 1) 0 (cos 1)"
    by (simp add: rotateAbout_def Let_def aOrth_of_def aParallel_of_def vec_defs)
  have rot2: "rotateAboutOrthogonal (Vector3 0 0 1) (Vector3 0 (- 1) 0) 1 =
      Vector3 (- sin 1) 0 (cos 1)"
    by (simp add: rotateAboutOrthogonal_def vec_defs)
  show ?thesis
    unfolding u
    by (simp add: actuallyInclineRight_def Let_def inclineRight_def pole_camera_eval
        level_camera_eval updateUp_def updateRight_def ax rot rot2 epsilon_def)
       (simp add: vec_defs)
qed

lemma tilted_camera_vectors:
  "pedestal tilted_camera = Vector3 0 (3 / 5) (4 / 5)"
  "norm_v (pedestal tilted_camera) = 1"
proof -
  have n: "norm_v (Vector3 0 (3 / 5) (4 / 5)) = 1"
    by (simp add: norm_v_1_iff dot_def)
  show "pedestal tilted_camera = Vector3 0 (3 / 5) (4 / 5)"
    using n by (simp add: tilted_camera_def construct_vectors changeHand_def normalize_v_def
        isZero_v_def isZero_def epsilon_def Let_def)
  then show "norm_v (pedestal tilted_camera) = 1" using n by simp
qed

lemma tiny_look:
  "look (setLook tilted_camera (Vector3 0 (- (1 / 100000000)) (- (1 / 100000000)))) =
     Vector3 0 (1 / 100000000) (- (1 / 100000000))
   \<and> nondegenerate (setLook tilted_camera (Vector3 0 (- (1 / 100000000)) (- (1 / 100000000))))
   \<and> norm_v (look (setLook tilted_camera
        (Vector3 0 (- (1 / 100000000)) (- (1 / 100000000))))) \<noteq> 1"
proof -
  have l: "look (setLook tilted_camera (Vector3 0 (- (1 / 100000000)) (- (1 / 100000000)))) =
     Vector3 0 (1 / 100000000) (- (1 / 100000000))"
    by (simp add: setLook_vectors changeHand_def normalize_v_def isZero_v_def isZero_def
        epsilon_def)
  show ?thesis
    unfolding nondegenerate_def l
    by (simp add: setLook_vectors tilted_camera_vectors norm_v_1_iff)
       (simp add: cross_def dot_def isZero_v_def isZero_def epsilon_def)
qed

section \<open>A raised look direction, evaluated\<close>

lemma sqrt_9_25: "sqrt (9 / 25) = 3 / 5"
proof -
  have "sqrt (9 / 25) = sqrt ((3 / 5)\<^sup>2)" by (simp add: power2_eq_square)
  also have "\<dots> = 3 / 5" by simp
  finally show ?thesis .
qed

lemma sin_arccos_4_5: "sin (arccos (4 / 5)) = 3 / 5"
  using sin_arccos_abs[of "4 / 5"] sqrt_9_25 by (simp add: power2_eq_square)

lemma cos_elev: "cos (pi / 2 - arccos (4 / 5)) = 3 / 5"
  using sin_arccos_4_5 by (simp add: cos_diff)

lemma sin_elev: "sin (pi / 2 - arccos (4 / 5)) = 4 / 5"
  by (simp add: sin_diff)

lemma cos_elev': "cos (arccos (4 / 5) - pi / 2) = 3 / 5"
  using sin_arccos_4_5 by (simp add: cos_diff)

lemma sin_elev': "sin (arccos (4 / 5) - pi / 2) = - (4 / 5)"
  by (simp add: sin_diff)

lemmas elev_simps = cos_elev sin_elev cos_elev' sin_elev'

lemma fromVector3_example:
  "fromVector3 (Vector3 (3 / 5) 0 (4 / 5)) UP RIGHT =
     Direction2 (arccos (93 / 125)) (pi / 2 - arccos (4 / 5))"
  by (simp add: fromVector3_def Let_def UP_def RIGHT_def angleBetween_def
      signedAngleBetween_def rotateAboutOrthogonal_def vec_defs elev_simps)

lemma toVector3_example_x:
  "vx (toVector3 (Direction2 (arccos (93 / 125)) (pi / 2 - arccos (4 / 5))) UP RIGHT)
     = 279 / 625"
  by (simp add: toVector3_def Let_def UP_def RIGHT_def rotateAboutOrthogonal_def vec_defs
      elev_simps)

lemma levelled_example:
  "rotateAboutOrthogonal (Vector3 (3 / 5) 0 (4 / 5)) (cross (Vector3 (3 / 5) 0 (4 / 5)) UP)
     (- (pi / 2 - angleBetween (Vector3 (3 / 5) 0 (4 / 5)) UP)) = Vector3 (93 / 125) 0 (24 / 125)"
  by (simp add: UP_def angleBetween_def rotateAboutOrthogonal_def vec_defs elev_simps)

lemma sin_sq_heading:
  "sin (arccos (93 / 125)) * sin (arccos (93 / 125)) = 6976 / 15625"
proof -
  have "sin (arccos (93 / 125)) * sin (arccos (93 / 125))
      = 1 - cos (arccos (93 / 125)) * cos (arccos (93 / 125))"
    using sin_cos_squared_add3[of "arccos (93 / 125)"] by (simp only: algebra_simps)
  then show ?thesis by simp
qed

lemma toVector3_example_z:
  "vz (toVector3 (Direction2 (arccos (93 / 125)) (pi / 2 - arccos (4 / 5))) UP RIGHT) = 4 / 5"
  by (simp add: toVector3_def Let_def UP_def RIGHT_def rotateAboutOrthogonal_def vec_defs
      elev_simps sin_sq_heading)

lemma elev_gt: "1 / 3 < pi / 2 - arccos (4 / 5)"
proof -
  have "arccos (4 / 5) < arccos (1 / 2)"
    by (rule arccos_less_arccos) simp_all
  then have "arccos (4 / 5) < pi / 3" by simp
  then show ?thesis using pi_ge_two by linarith
qed

lemma dv_fromVector3: "dv (fromVector3 u vertical hor) = pi / 2 - angleBetween u vertical"
  by (simp add: fromVector3_def Let_def)

lemma setLookSmooth_fields:
  "targetYang (setLookSmooth c l) = pi / 2 - angleBetween (normalize_v (changeHand l)) (pedestal c)"
  "yAng (setLookSmooth c l) = yAng c" "maxUpAng (setLookSmooth c l) = maxUpAng c"
  "minUpAng (setLookSmooth c l) = minUpAng c"
  "coef_t (setLookSmooth c l) = coef_t c" "coef_s (setLookSmooth c l) = coef_s c"
  by (simp_all add: setLookSmooth_def Let_def dv_fromVector3)

lemma steep_look_angle:
  "angleBetween (normalize_v (changeHand steep_look)) (Vector3 0 0 1) = arccos (4 / 5)"
  by (simp add: steep_look_def angleBetween_def vec_defs)

lemma steep_camera_fields:
  "yAng (steep_camera m) = pi / 2 - arccos (4 / 5)"
  "targetYang (steep_camera m) = pi / 2 - arccos (4 / 5)"
  "maxUpAng (steep_camera m) = m" "minUpAng (steep_camera m) = - m"
  "coef_t (steep_camera m) = 1"
  by (simp_all add: steep_camera_def constructor_def Let_def steep_look_def angleBetween_def
      vec_defs)

lemma stalled_camera_fields:
  "yAng stalled_camera = pi / 2 - arccos (4 / 5)"
  "targetYang stalled_camera = pi / 2 - arccos (4 / 5) - 1 / 1000000"
  "maxUpAng stalled_camera = pi / 2 - arccos (4 / 5) - 1 / 1000000"
  "minUpAng stalled_camera = - (pi / 2 - arccos (4 / 5) - 1 / 1000000)"
  "coef_t stalled_camera = 1 / 1000"
  using elev_gt
  by (simp_all add: stalled_camera_def rotateUp_def setSmoothness_def Let_def
      steep_camera_fields clamp_def)

section \<open>A look direction raised by less than epsilon\<close>

lemma sin_ge_half:
  fixes x :: real
  assumes x0: "0 \<le> x" and x1: "x \<le> pi / 3"
  shows "x / 2 \<le> sin x"
proof (cases "x = 0")
  case True
  then show ?thesis by simp
next
  case False
  then have pos: "0 < x" using x0 by simp
  have "\<exists>z. 0 < z \<and> z < x \<and> sin x - sin 0 = (x - 0) * cos z"
    by (rule MVT2[OF pos]) (auto intro!: derivative_eq_intros)
  then obtain z where z: "0 < z" "z < x" and eq: "sin x = x * cos z"
    by auto
  have "cos (pi / 3) \<le> cos z"
    using z x1 pi_ge_two by (intro cos_monotone_0_pi_le) linarith+
  then have "1 / 2 \<le> cos z" by (simp add: cos_60)
  then have "x * (1 / 2) \<le> x * cos z"
    using pos by (intro mult_left_mono) simp_all
  then show ?thesis by (simp add: eq)
qed

lemma small_elevation:
  fixes z :: real
  assumes z0: "0 \<le> z" and z1: "z \<le> 1 / 4"
  shows "z \<le> pi / 2 - arccos z" and "pi / 2 - arccos z \<le> 2 * z"
proof -
  have e: "pi / 2 - arccos z = arcsin z"
    using z0 z1 by (simp add: arcsin_arccos_eq)
  have nn: "0 \<le> arcsin z"
    using z0 z1 by (intro arcsin_nonneg) simp
  have "sin (arcsin z) \<le> arcsin z" by (rule sin_x_le_x[OF nn])
  then show "z \<le> pi / 2 - arccos z"
    using z0 z1 by (simp add: e)
  have "(2 * z) / 2 \<le> sin (2 * z)"
    using z0 z1 pi_ge_two by (intro sin_ge_half) linarith+
  then have "z \<le> sin (2 * z)" by simp
  then have "arcsin z \<le> 2 * z"
    using z0 z1 pi_ge_two by (subst arcsin_le_iff) linarith+
  then show "pi / 2 - arccos z \<le> 2 * z" by (simp add: e)
qed

lemma shallow_look_angle:
  "angleBetween (normalize_v (changeHand shallow_look)) (Vector3 0 0 1) =
     arccos (1000000000 / 250000000000000001)"
  by (simp add: shallow_look_def angleBetween_def vec_defs)

lemma grazing_camera_fields:
  "yAng grazing_camera = 0"
  "targetYang grazing_camera = pi / 2 - arccos (1000000000 / 250000000000000001)"
  "maxUpAng grazing_camera = 1 / 1000000000" "minUpAng grazing_camera = - (1 / 1000000000)"
  "coef_t grazing_camera = 1"
  by (simp_all add: grazing_camera_def setLookSmooth_fields level_camera_eval shallow_look_angle)

lemma grazing_target:
  "1 / 1000000000 < targetYang grazing_camera" "targetYang grazing_camera \<le> epsilon"
  using small_elevation[of "1000000000 / 250000000000000001"]
  by (simp_all add: grazing_camera_fields epsilon_def)

lemma grazing_counter:
  "minUpAng grazing_camera \<le> yAng grazing_camera
   \<and> yAng grazing_camera \<le> maxUpAng grazing_camera
   \<and> minUpAng grazing_camera \<le> maxUpAng grazing_camera
   \<and> coef_t grazing_camera = 1
   \<and> maxUpAng grazing_camera
       < yAng grazing_camera + (lerp (yAng grazing_camera) (targetYang grazing_camera)
                                  (coef_t grazing_camera) - yAng grazing_camera)
   \<and> isZero (lerp (yAng grazing_camera) (targetYang grazing_camera)
                                  (coef_t grazing_camera) - yAng grazing_camera)
   \<and> yAng (update grazing_camera) = 0
   \<and> yAng (update grazing_camera) \<noteq> maxUpAng grazing_camera
   \<and> look (update_y (update_x grazing_camera)) = look (update_x grazing_camera)"
  using grazing_target
  by (simp add: yAng_update look_update_y update_x_keeps grazing_camera_fields lerp_def Let_def
      isZero_def)

section \<open>The direction of the horizontal step\<close>

lemma look_actuallyRotateLeft:
  "look (actuallyRotateLeft c r) =
     (if isZero r then look c else rotateAbout (look c) (pedestal c) r)"
  by (simp add: actuallyRotateLeft_def Let_def updateUp_def updateRight_def)

lemma inverted_quarter_turn:
  "rotateAbout (Vector3 0 (- 1) 0) (Vector3 0 0 1) (- (pi / 2)) = Vector3 (- 1) 0 0"
  by (simp add: rotateAbout_def Let_def aOrth_of_def aParallel_of_def vec_defs)

lemma cross_aOrth:
  assumes "dot b b = 1"
  shows "cross b (aOrth_of a b) = cross b a"
  using assms
  by (simp add: aOrth_of_def aParallel_of_def cross_def increasedBy_def times_v_def
      algebra_simps)

lemma cross_swap: "cross b a = times_v (cross a b) (- 1)"
  by (simp add: cross_def times_v_def)

text \<open>
  The horizontal step turns look away from right: after \<open>#actuallyRotateLeft(r)\<close> the
  component of the new look along the old right vector is \<open>- sin r\<close> times the norm of
  \<open>cross(look, pedestal)\<close>, negative for every \<open>r\<close> strictly between \<open>0\<close> and \<open>\<pi>\<close>.
\<close>

lemma actuallyRotateLeft_turns_away_from_right:
  assumes p: "norm_v (pedestal c) = 1"
    and r: "right c = normalize_v (cross (look c) (pedestal c))"
    and nd: "nondegenerate c" and nz: "\<not> isZero radians"
  shows "dot (look (actuallyRotateLeft c radians)) (right c) =
           - sin radians * norm_v (cross (look c) (pedestal c))"
proof -
  let ?l = "look c" and ?p = "pedestal c"
  let ?o = "aOrth_of ?l ?p" and ?n = "cross ?l ?p"
  have pp: "dot ?p ?p = 1" using p by (simp add: norm_v_1_iff)
  have nn: "\<not> isZero_v ?n" using nd by (simp add: nondegenerate_def)
  have npos: "epsilon < norm_v ?n" by (rule not_isZero_v_norm[OF nn])
  have w: "cross ?p ?o = times_v ?n (- 1)"
    using cross_aOrth[OF pp, of ?l] cross_swap[of ?p ?l] by simp
  have op: "dot ?p ?o = 0"
    using aOrth_of_orth[of ?p ?l] pp by (simp add: dot_commute)
  have "norm_v ?o = norm_v (cross ?p ?o)"
    using norm_cross_unit_orth[OF pp op] by simp
  also have "\<dots> = norm_v ?n"
    by (simp add: w norm_v_sqrt_dot dot_times_left dot_times_right)
  finally have big: "\<not> norm_v ?o < epsilon" using npos by simp
  have on: "dot ?o ?n = 0"
  proof -
    have "dot ?l ?n = 0" "dot ?p ?n = 0"
      using dot_cross_left1[of ?l ?p] dot_cross_left2[of ?l ?p] by (simp_all add: dot_commute)
    then show ?thesis
      by (simp add: aOrth_of_def aParallel_of_def dot_increasedBy_left dot_times_left)
  qed
  have pn: "dot (aParallel_of ?l ?p) ?n = 0"
  proof -
    have "dot ?p ?n = 0"
      using dot_cross_left2[of ?l ?p] by (simp add: dot_commute[of ?p ?n])
    then show ?thesis by (simp add: aParallel_of_def dot_times_left)
  qed
  have "dot (rotateAbout ?l ?p radians) ?n = - sin radians * dot ?n ?n"
    unfolding rotateAbout_unit[OF pp big] w
    by (simp add: dot_increasedBy_left dot_times_left on pn)
  then have "dot (rotateAbout ?l ?p radians) (normalize_v ?n) =
      - sin radians * dot ?n ?n / norm_v ?n"
    by (simp add: normalize_times[OF nn] dot_times_right)
  also have "\<dots> = - sin radians * norm_v ?n"
    using npos epsilon_pos by (simp add: norm_v_sq[symmetric])
  finally show ?thesis
    using nz by (simp add: actuallyRotateLeft_def Let_def updateUp_def updateRight_def r)
qed

section \<open>The claims\<close>

text \<open>
  C1. When \<open>update()\<close> applies a horizontal angle delta, it rotates \<open>look\<close> about the
  pedestal by the delta so that a positive delta turns the view toward the right basis
  vector, a negative rotation about the pedestal under the right-hand rule, the sign being
  inverted before the rotation is applied.

  As the code has it: the horizontal step of \<open>update()\<close> is \<open>#actuallyRotateLeft\<close> of
  the delta \<open>lerp(xAng, targetXang, t) - xAng\<close>; a delta within epsilon of zero is
  skipped, any other delta is passed to \<open>rotateAbout(pedestal, delta)\<close> as it is, with no
  change of sign, and added to \<open>xAng\<close>. For a unit pedestal,
  \<open>right = normalize(cross(look, pedestal))\<close> and look not collinear with the pedestal,
  the new look has the component \<open>- sin(delta)\<close> times the norm of
  \<open>cross(look, pedestal)\<close> along the old right vector: a delta strictly between \<open>0\<close>
  and \<open>\<pi>\<close> is a positive rotation about the pedestal and turns the view away from
  \<open>right\<close>, to the left as the name \<open>rotateLeft\<close> says, and a delta strictly between
  \<open>-\<pi>\<close> and \<open>0\<close> turns it toward \<open>right\<close>.
\<close>

theorem horizontal_delta_applied_unchanged:
  "update_x c = actuallyRotateLeft c (lerp (xAng c) (targetXang c) (coef_t c) - xAng c)
   \<and> look (actuallyRotateLeft c r) =
       (if isZero r then look c else rotateAbout (look c) (pedestal c) r)
   \<and> xAng (actuallyRotateLeft c r) = (if isZero r then xAng c else xAng c + r)
   \<and> (norm_v (pedestal c) = 1 \<and> right c = normalize_v (cross (look c) (pedestal c))
        \<and> nondegenerate c \<and> \<not> isZero r \<longrightarrow>
        dot (look (actuallyRotateLeft c r)) (right c) =
          - sin r * norm_v (cross (look c) (pedestal c))
        \<and> (0 < r \<and> r < pi \<longrightarrow> dot (look (actuallyRotateLeft c r)) (right c) < 0)
        \<and> (- pi < r \<and> r < 0 \<longrightarrow> 0 < dot (look (actuallyRotateLeft c r)) (right c)))"
proof -
  have sign: "dot (look (actuallyRotateLeft c r)) (right c) =
          - sin r * norm_v (cross (look c) (pedestal c))
        \<and> (0 < r \<and> r < pi \<longrightarrow> dot (look (actuallyRotateLeft c r)) (right c) < 0)
        \<and> (- pi < r \<and> r < 0 \<longrightarrow> 0 < dot (look (actuallyRotateLeft c r)) (right c))"
    if h: "norm_v (pedestal c) = 1" "right c = normalize_v (cross (look c) (pedestal c))"
      "nondegenerate c" "\<not> isZero r"
  proof -
    have e: "dot (look (actuallyRotateLeft c r)) (right c) =
          - sin r * norm_v (cross (look c) (pedestal c))"
      by (rule actuallyRotateLeft_turns_away_from_right[OF h])
    have n: "0 < norm_v (cross (look c) (pedestal c))"
      using not_isZero_v_norm[of "cross (look c) (pedestal c)"] h(3) epsilon_pos
      by (simp add: nondegenerate_def)
    have p: "0 < sin r" if "0 < r" "r < pi"
      using that by (rule sin_gt_zero)
    have m: "sin r < 0" if "- pi < r" "r < 0"
      using sin_gt_zero[of "- r"] that by simp
    show ?thesis
      using e n p m by (simp add: mult_neg_pos)
  qed
  have shape: "update_x c = actuallyRotateLeft c (lerp (xAng c) (targetXang c) (coef_t c) - xAng c)
   \<and> look (actuallyRotateLeft c r) =
       (if isZero r then look c else rotateAbout (look c) (pedestal c) r)
   \<and> xAng (actuallyRotateLeft c r) = (if isZero r then xAng c else xAng c + r)"
    by (simp add: update_x_def setXangle_def look_actuallyRotateLeft xAng_actuallyRotateLeft)
  show ?thesis
    using shape sign by blast
qed

theorem horizontal_delta_witness:
  "norm_v (pedestal (level_camera (pi / 3))) = 1
   \<and> right (level_camera (pi / 3)) =
       normalize_v (cross (look (level_camera (pi / 3))) (pedestal (level_camera (pi / 3))))
   \<and> nondegenerate (level_camera (pi / 3)) \<and> \<not> isZero (pi / 2)
   \<and> look (actuallyRotateLeft (level_camera (pi / 3)) (pi / 2)) =
       rotateAbout (Vector3 0 (- 1) 0) (Vector3 0 0 1) (pi / 2)
   \<and> dot (look (actuallyRotateLeft (level_camera (pi / 3)) (pi / 2)))
         (right (level_camera (pi / 3))) = - 1
   \<and> dot (look (actuallyRotateLeft (level_camera (pi / 3)) (pi / 2)))
         (right (level_camera (pi / 3))) < 0
   \<and> \<not> isZero (- (pi / 2))
   \<and> 0 < dot (look (actuallyRotateLeft (level_camera (pi / 3)) (- (pi / 2))))
         (right (level_camera (pi / 3)))"
proof -
  have hyps: "norm_v (pedestal (level_camera (pi / 3))) = 1
   \<and> right (level_camera (pi / 3)) =
       normalize_v (cross (look (level_camera (pi / 3))) (pedestal (level_camera (pi / 3))))
   \<and> nondegenerate (level_camera (pi / 3))"
    by (simp add: level_camera_eval nondegenerate_def) (simp add: vec_defs)
  have nz: "\<not> isZero (pi / 2) \<and> \<not> isZero (- (pi / 2))"
    using pi_ge_two by (simp add: isZero_def epsilon_def)
  have rng: "0 < pi / 2 \<and> pi / 2 < pi \<and> - pi < - (pi / 2) \<and> - (pi / 2) < 0"
    using pi_ge_two by simp
  have n1: "norm_v (cross (look (level_camera (pi / 3))) (pedestal (level_camera (pi / 3)))) = 1"
    by (simp add: level_camera_eval cross_def norm_v_def)
  have a: "look (actuallyRotateLeft (level_camera (pi / 3)) (pi / 2)) =
       rotateAbout (Vector3 0 (- 1) 0) (Vector3 0 0 1) (pi / 2)
   \<and> dot (look (actuallyRotateLeft (level_camera (pi / 3)) (pi / 2)))
         (right (level_camera (pi / 3))) = - 1
   \<and> dot (look (actuallyRotateLeft (level_camera (pi / 3)) (pi / 2)))
         (right (level_camera (pi / 3))) < 0"
  proof -
    have t: "look (actuallyRotateLeft (level_camera (pi / 3)) (pi / 2)) =
        (if isZero (pi / 2) then look (level_camera (pi / 3))
         else rotateAbout (look (level_camera (pi / 3))) (pedestal (level_camera (pi / 3)))
                (pi / 2))
      \<and> dot (look (actuallyRotateLeft (level_camera (pi / 3)) (pi / 2)))
          (right (level_camera (pi / 3))) =
          - sin (pi / 2) *
            norm_v (cross (look (level_camera (pi / 3))) (pedestal (level_camera (pi / 3))))
      \<and> dot (look (actuallyRotateLeft (level_camera (pi / 3)) (pi / 2)))
          (right (level_camera (pi / 3))) < 0"
      using horizontal_delta_applied_unchanged[of "level_camera (pi / 3)" "pi / 2"] hyps nz rng
      by blast
    from t have t1: "look (actuallyRotateLeft (level_camera (pi / 3)) (pi / 2)) =
        (if isZero (pi / 2) then look (level_camera (pi / 3))
         else rotateAbout (look (level_camera (pi / 3))) (pedestal (level_camera (pi / 3)))
                (pi / 2))"
      and t2: "dot (look (actuallyRotateLeft (level_camera (pi / 3)) (pi / 2)))
          (right (level_camera (pi / 3))) =
          - sin (pi / 2) *
            norm_v (cross (look (level_camera (pi / 3))) (pedestal (level_camera (pi / 3))))"
      and t3: "dot (look (actuallyRotateLeft (level_camera (pi / 3)) (pi / 2)))
          (right (level_camera (pi / 3))) < 0"
      by blast+
    have l: "look (actuallyRotateLeft (level_camera (pi / 3)) (pi / 2)) =
        rotateAbout (Vector3 0 (- 1) 0) (Vector3 0 0 1) (pi / 2)"
      using t1 nz by (simp add: level_camera_eval)
    have e: "dot (look (actuallyRotateLeft (level_camera (pi / 3)) (pi / 2)))
          (right (level_camera (pi / 3))) = - 1"
      unfolding t2 n1 by simp
    show ?thesis using t3 l e by blast
  qed
  have b: "0 < dot (look (actuallyRotateLeft (level_camera (pi / 3)) (- (pi / 2))))
         (right (level_camera (pi / 3)))"
    using horizontal_delta_applied_unchanged[of "level_camera (pi / 3)" "- (pi / 2)"] hyps nz rng
    by blast
  show ?thesis using hyps nz a b by blast
qed

text \<open>
  The claim as stated fails on the end-to-end example (pedestal \<open>(0,0,1)\<close>, look
  \<open>(0,1,0)\<close>, \<open>rotateLeft(\<pi>/2)\<close>, one \<open>update()\<close> with the initial coefficients):
  the right vector is \<open>(-1,0,0)\<close> and \<open>look\<close> ends at \<open>(1,0,0)\<close>, the opposite of
  the right vector, inside the camera and in the host's coordinates alike. It is the
  rotation of \<open>look\<close> by \<open>+\<pi>/2\<close> about the pedestal; the rotation by \<open>-\<pi>/2\<close>,
  which an inverted sign would give, ends at the right vector.
\<close>

theorem rotateLeft_quarter_turn_ends_opposite_right:
  "right (level_camera (pi / 3)) = Vector3 (- 1) 0 0
   \<and> look (level_camera (pi / 3)) = Vector3 0 (- 1) 0
   \<and> look (update (rotateLeft (level_camera (pi / 3)) (pi / 2))) = Vector3 1 0 0
   \<and> look (update (rotateLeft (level_camera (pi / 3)) (pi / 2)))
       = opposite (right (level_camera (pi / 3)))
   \<and> look (update (rotateLeft (level_camera (pi / 3)) (pi / 2)))
       = rotateAbout (look (level_camera (pi / 3))) (pedestal (level_camera (pi / 3))) (pi / 2)
   \<and> rotateAbout (look (level_camera (pi / 3))) (pedestal (level_camera (pi / 3)))
         (- (pi / 2)) = right (level_camera (pi / 3))
   \<and> look (update (rotateLeft (level_camera (pi / 3)) (pi / 2)))
       \<noteq> rotateAbout (look (level_camera (pi / 3))) (pedestal (level_camera (pi / 3)))
           (- (pi / 2))
   \<and> dot (look (update (rotateLeft (level_camera (pi / 3)) (pi / 2))))
         (right (level_camera (pi / 3))) = - 1
   \<and> xAng (update (rotateLeft (level_camera (pi / 3)) (pi / 2))) = pi / 2
   \<and> construct3Right (level_camera (pi / 3)) = Vector3 (- 1) 0 0
   \<and> construct3Forward (update (rotateLeft (level_camera (pi / 3)) (pi / 2))) = Vector3 1 0 0"
proof -
  let ?c = "rotateLeft (level_camera (pi / 3)) (pi / 2)"
  have u: "update ?c =
    (actuallyRotateLeft ?c (lerp (xAng ?c) (targetXang ?c) (coef_t ?c) - xAng ?c))
      \<lparr>position := lerp_v (position ?c) (targetPosition ?c) (coef_s ?c)\<rparr>"
    by (rule update_only_x) (simp_all add: rotateLeft_def level_camera_eval)
  have d: "lerp (xAng ?c) (targetXang ?c) (coef_t ?c) - xAng ?c = pi / 2"
    by (simp add: rotateLeft_def level_camera_eval lerp_one)
  show ?thesis
    unfolding u d level_quarter_turn
    by (simp add: level_camera_eval construct3Forward_def construct3Right_def changeHand_def
        opposite_def quarter_turn_look inverted_quarter_turn dot_def)
qed

text \<open>
  C2. After any public mutator returns, \<open>right\<close>, \<open>up\<close> and \<open>look\<close> are pairwise
  orthogonal unit vectors, with \<open>right = normalize(cross(look, pedestal))\<close> and
  \<open>up = cross(right, look)\<close>.

  As the code has it: the constructor, \<open>setLook\<close> and \<open>lookAt\<close> (which is \<open>setLook\<close>
  toward the target from the position) always set
  \<open>right = normalize(cross(look, pedestal))\<close> and \<open>up = cross(right, look)\<close>. The three
  vectors are orthonormal after the constructor for unit arguments, and after \<open>setLook\<close>
  or \<open>lookAt\<close> on a camera with a unit pedestal for a look argument, of any length, that
  is not within epsilon of the zero vector, provided \<open>cross(look, pedestal)\<close> has a
  component larger than epsilon afterwards (look not collinear with the pedestal).
  \<open>update()\<close> keeps pedestal, look and right unit, right orthogonal to look and pedestal
  and \<open>up = cross(right, look)\<close>, hence the three vectors orthonormal, provided each of
  the two steps that recompute \<open>right\<close>, the horizontal step and the right-inclination
  step, is skipped or leaves the camera non-degenerate; after it \<open>right\<close> is
  \<open>normalize(cross(look, pedestal))\<close> exactly when the camera is non-degenerate and
  \<open>cross(look, pedestal)\<close> points along \<open>right\<close>, the elevation and
  forward-inclination steps not recomputing \<open>right\<close>. Every other public mutator leaves
  the four vectors as they were.
\<close>

theorem derived_vectors_orthonormal_when_not_collinear:
  "(norm_v d = 1 \<and> norm_v l = 1 \<and> \<not> isZero_v (cross (changeHand l) (changeHand d)) \<longrightarrow>
      frame_inv (constructor p d l xa m)
      \<and> orthonormal (right (constructor p d l xa m)) (up (constructor p d l xa m))
          (look (constructor p d l xa m)))
   \<and> right (constructor p d l xa m) =
       normalize_v (cross (look (constructor p d l xa m)) (pedestal (constructor p d l xa m)))
   \<and> up (constructor p d l xa m) =
       cross (right (constructor p d l xa m)) (look (constructor p d l xa m))
   \<and> (norm_v (pedestal c) = 1 \<and> \<not> isZero_v l \<and> nondegenerate (setLook c l) \<longrightarrow>
      frame_inv (setLook c l)
      \<and> orthonormal (right (setLook c l)) (up (setLook c l)) (look (setLook c l)))
   \<and> right (setLook c l) = normalize_v (cross (look (setLook c l)) (pedestal (setLook c l)))
   \<and> up (setLook c l) = cross (right (setLook c l)) (look (setLook c l))
   \<and> (norm_v (pedestal c) = 1 \<and> \<not> isZero_v (difference (changeHand (position c)) q)
        \<and> nondegenerate (lookAt c q) \<longrightarrow>
      frame_inv (lookAt c q)
      \<and> orthonormal (right (lookAt c q)) (up (lookAt c q)) (look (lookAt c q)))
   \<and> right (lookAt c q) = normalize_v (cross (look (lookAt c q)) (pedestal (lookAt c q)))
   \<and> up (lookAt c q) = cross (right (lookAt c q)) (look (lookAt c q))
   \<and> (frame_inv c
        \<and> (update_x c = c \<or> nondegenerate (update_x c))
        \<and> (update_r (update_y (update_x c)) = update_y (update_x c)
             \<or> nondegenerate (update_r (update_y (update_x c)))) \<longrightarrow>
      frame_inv (update c)
      \<and> orthonormal (right (update c)) (up (update c)) (look (update c))
      \<and> up (update c) = cross (right (update c)) (look (update c))
      \<and> ((right (update c) = normalize_v (cross (look (update c)) (pedestal (update c)))) =
           (nondegenerate (update c)
            \<and> 0 < dot (cross (look (update c)) (pedestal (update c))) (right (update c)))))
   \<and> same_vectors c (rotateLeft c r) \<and> same_vectors c (rotateUp c r)
   \<and> same_vectors c (inclineRight c r) \<and> same_vectors c (inclineForward c r)
   \<and> same_vectors c (setLookSmooth c l) \<and> same_vectors c (lookAtSmooth c q)
   \<and> same_vectors c (setSmoothness c a b)
   \<and> same_vectors c (setPosition c q) \<and> same_vectors c (setPositionSmooth c q)
   \<and> same_vectors c (moveRight c r) \<and> same_vectors c (moveForward c r)
   \<and> same_vectors c (moveUp c r)"
proof -
  have same: "same_vectors c (rotateLeft c r) \<and> same_vectors c (rotateUp c r)
   \<and> same_vectors c (inclineRight c r) \<and> same_vectors c (inclineForward c r)
   \<and> same_vectors c (setLookSmooth c l) \<and> same_vectors c (lookAtSmooth c q)
   \<and> same_vectors c (setSmoothness c a b)
   \<and> same_vectors c (setPosition c q) \<and> same_vectors c (setPositionSmooth c q)
   \<and> same_vectors c (moveRight c r) \<and> same_vectors c (moveForward c r)
   \<and> same_vectors c (moveUp c r)"
    by (simp add: same_vectors_def rotateLeft_def rotateUp_def inclineRight_def
        inclineForward_def setLookSmooth_def lookAtSmooth_def setSmoothness_def setPosition_def
        setPositionSmooth_def moveRight_def moveForward_def moveUp_def Let_def)
  have eqs: "right (constructor p d l xa m) =
       normalize_v (cross (look (constructor p d l xa m)) (pedestal (constructor p d l xa m)))
   \<and> up (constructor p d l xa m) =
       cross (right (constructor p d l xa m)) (look (constructor p d l xa m))
   \<and> right (setLook c l) = normalize_v (cross (look (setLook c l)) (pedestal (setLook c l)))
   \<and> up (setLook c l) = cross (right (setLook c l)) (look (setLook c l))
   \<and> right (lookAt c q) = normalize_v (cross (look (lookAt c q)) (pedestal (lookAt c q)))
   \<and> up (lookAt c q) = cross (right (lookAt c q)) (look (lookAt c q))"
    by (simp add: construct_vectors setLook_vectors lookAt_def)
  have la: "frame_inv (lookAt c q)"
    if "norm_v (pedestal c) = 1" "\<not> isZero_v (difference (changeHand (position c)) q)"
      "nondegenerate (lookAt c q)"
    using that frame_inv_setLook_any[of c "difference (changeHand (position c)) q"]
    by (simp add: lookAt_def)
  have up: "up (update c) = cross (right (update c)) (look (update c))"
    if "frame_inv (update c)"
    using that by (simp add: frame_inv_def)
  show ?thesis
    using same eqs la up frame_inv_construct[of d l p xa m] frame_inv_setLook_any[of c l]
      frame_inv_update_steps[of c] right_is_recomputed_iff[of "update c"]
      frame_inv_orthonormal[of "constructor p d l xa m"] frame_inv_orthonormal[of "setLook c l"]
      frame_inv_orthonormal[of "lookAt c q"] frame_inv_orthonormal[of "update c"]
    by blast
qed

theorem derived_vectors_witness:
  "norm_v (Vector3 0 0 1) = 1 \<and> norm_v (Vector3 0 1 0) = 1
   \<and> \<not> isZero_v (cross (changeHand (Vector3 0 1 0)) (changeHand (Vector3 0 0 1)))
   \<and> orthonormal (right (level_camera (pi / 3))) (up (level_camera (pi / 3)))
        (look (level_camera (pi / 3)))
   \<and> norm_v (pedestal (level_camera (pi / 3))) = 1 \<and> \<not> isZero_v (Vector3 2 0 0)
   \<and> nondegenerate (setLook (level_camera (pi / 3)) (Vector3 2 0 0))
   \<and> orthonormal (right (setLook (level_camera (pi / 3)) (Vector3 2 0 0)))
        (up (setLook (level_camera (pi / 3)) (Vector3 2 0 0)))
        (look (setLook (level_camera (pi / 3)) (Vector3 2 0 0)))
   \<and> \<not> isZero_v (difference (changeHand (position (level_camera (pi / 3)))) (Vector3 2 0 0))
   \<and> nondegenerate (lookAt (level_camera (pi / 3)) (Vector3 2 0 0))
   \<and> orthonormal (right (lookAt (level_camera (pi / 3)) (Vector3 2 0 0)))
        (up (lookAt (level_camera (pi / 3)) (Vector3 2 0 0)))
        (look (lookAt (level_camera (pi / 3)) (Vector3 2 0 0)))
   \<and> frame_inv (rotateLeft (level_camera (pi / 3)) (pi / 2))
   \<and> nondegenerate (update_x (rotateLeft (level_camera (pi / 3)) (pi / 2)))
   \<and> update_r (update_y (update_x (rotateLeft (level_camera (pi / 3)) (pi / 2)))) =
       update_y (update_x (rotateLeft (level_camera (pi / 3)) (pi / 2)))
   \<and> orthonormal (right (update (rotateLeft (level_camera (pi / 3)) (pi / 2))))
        (up (update (rotateLeft (level_camera (pi / 3)) (pi / 2))))
        (look (update (rotateLeft (level_camera (pi / 3)) (pi / 2))))
   \<and> ((right (update (rotateLeft (level_camera (pi / 3)) (pi / 2))) =
         normalize_v (cross (look (update (rotateLeft (level_camera (pi / 3)) (pi / 2))))
           (pedestal (update (rotateLeft (level_camera (pi / 3)) (pi / 2)))))) =
       (nondegenerate (update (rotateLeft (level_camera (pi / 3)) (pi / 2)))
        \<and> 0 < dot (cross (look (update (rotateLeft (level_camera (pi / 3)) (pi / 2))))
                  (pedestal (update (rotateLeft (level_camera (pi / 3)) (pi / 2)))))
                (right (update (rotateLeft (level_camera (pi / 3)) (pi / 2))))))"
proof -
  have sl: "look (setLook (level_camera (pi / 3)) (Vector3 2 0 0)) = Vector3 1 0 0"
    by (simp add: setLook_vectors changeHand_def normalize_v_def isZero_v_def isZero_def
        epsilon_def norm_v_def Let_def)
  have df: "difference (changeHand (position (level_camera (pi / 3)))) (Vector3 2 0 0) =
      Vector3 2 0 0"
    by (simp add: level_camera_eval difference_def changeHand_def increasedBy_def times_v_def)
  have hyps: "norm_v (Vector3 0 0 1) = 1 \<and> norm_v (Vector3 0 1 0) = 1
   \<and> \<not> isZero_v (cross (changeHand (Vector3 0 1 0)) (changeHand (Vector3 0 0 1)))
   \<and> norm_v (pedestal (level_camera (pi / 3))) = 1 \<and> \<not> isZero_v (Vector3 2 0 0)
   \<and> nondegenerate (setLook (level_camera (pi / 3)) (Vector3 2 0 0))
   \<and> \<not> isZero_v (difference (changeHand (position (level_camera (pi / 3)))) (Vector3 2 0 0))
   \<and> nondegenerate (lookAt (level_camera (pi / 3)) (Vector3 2 0 0))"
    unfolding lookAt_def df nondegenerate_def sl
    by (simp add: setLook_vectors level_camera_eval) (simp add: vec_defs)
  have inv: "frame_inv (rotateLeft (level_camera (pi / 3)) (pi / 2))"
    by (simp add: frame_inv_def rotateLeft_def level_camera_eval norm_v_def dot_def cross_def)
  have nd: "nondegenerate (update_x (rotateLeft (level_camera (pi / 3)) (pi / 2)))
   \<and> update_r (update_y (update_x (rotateLeft (level_camera (pi / 3)) (pi / 2)))) =
       update_y (update_x (rotateLeft (level_camera (pi / 3)) (pi / 2)))"
    unfolding quarter_turn_stages(1)
    by (simp add: nondegenerate_def update_y_idle update_r_idle level_camera_eval)
       (simp add: vec_defs)
  have fresh: "orthonormal (right (level_camera (pi / 3))) (up (level_camera (pi / 3)))
        (look (level_camera (pi / 3)))"
    using hyps
      derived_vectors_orthonormal_when_not_collinear
        [where d = "Vector3 0 0 1" and l = "Vector3 0 1 0" and p = "Vector3 0 0 0"
          and xa = 0 and m = "pi / 3"]
    unfolding level_camera_def by blast
  have turned: "orthonormal (right (setLook (level_camera (pi / 3)) (Vector3 2 0 0)))
        (up (setLook (level_camera (pi / 3)) (Vector3 2 0 0)))
        (look (setLook (level_camera (pi / 3)) (Vector3 2 0 0)))
   \<and> orthonormal (right (lookAt (level_camera (pi / 3)) (Vector3 2 0 0)))
        (up (lookAt (level_camera (pi / 3)) (Vector3 2 0 0)))
        (look (lookAt (level_camera (pi / 3)) (Vector3 2 0 0)))"
    using hyps
      derived_vectors_orthonormal_when_not_collinear
        [where l = "Vector3 2 0 0" and q = "Vector3 2 0 0" and c = "level_camera (pi / 3)"]
    by blast
  have ticked: "orthonormal (right (update (rotateLeft (level_camera (pi / 3)) (pi / 2))))
        (up (update (rotateLeft (level_camera (pi / 3)) (pi / 2))))
        (look (update (rotateLeft (level_camera (pi / 3)) (pi / 2))))
   \<and> ((right (update (rotateLeft (level_camera (pi / 3)) (pi / 2))) =
         normalize_v (cross (look (update (rotateLeft (level_camera (pi / 3)) (pi / 2))))
           (pedestal (update (rotateLeft (level_camera (pi / 3)) (pi / 2)))))) =
       (nondegenerate (update (rotateLeft (level_camera (pi / 3)) (pi / 2)))
        \<and> 0 < dot (cross (look (update (rotateLeft (level_camera (pi / 3)) (pi / 2))))
                  (pedestal (update (rotateLeft (level_camera (pi / 3)) (pi / 2)))))
                (right (update (rotateLeft (level_camera (pi / 3)) (pi / 2))))))"
    using inv nd
      derived_vectors_orthonormal_when_not_collinear
        [where c = "rotateLeft (level_camera (pi / 3)) (pi / 2)"]
    by blast
  show ?thesis
    using hyps inv nd fresh turned ticked by blast
qed

text \<open>
  The claim as stated fails in each of these ways. \<open>setLook\<close> with a unit look collinear
  with the pedestal leaves \<open>right\<close> and \<open>up\<close> the zero vector. \<open>lookAt\<close> the camera's
  own position leaves \<open>look\<close> the zero vector. \<open>setLook\<close> with a look argument within
  epsilon of zero leaves \<open>look\<close> that short vector, also where its cross product with
  the pedestal has a component above epsilon. On the camera raised to look along its
  pedestal, whose frame is intact, \<open>rotateLeft(1)\<close> and \<open>update()\<close>, and likewise
  \<open>inclineRight(1)\<close> and \<open>update()\<close>, recompute \<open>right\<close> as the zero vector. On the
  camera raised past its pedestal by \<open>rotateUp(\<pi>)\<close> the frame is intact and
  \<open>right = (-1,0,0)\<close> is the opposite of \<open>normalize(cross(look, pedestal)) = (1,0,0)\<close>.
\<close>

theorem collinear_look_counterexample:
  "norm_v (Vector3 0 0 1) = 1
   \<and> pedestal (level_camera (pi / 3)) = Vector3 0 0 1
   \<and> look (setLook (level_camera (pi / 3)) (Vector3 0 0 1)) = Vector3 0 0 1
   \<and> right (setLook (level_camera (pi / 3)) (Vector3 0 0 1)) = Vector3 0 0 0
   \<and> up (setLook (level_camera (pi / 3)) (Vector3 0 0 1)) = Vector3 0 0 0
   \<and> norm_v (right (setLook (level_camera (pi / 3)) (Vector3 0 0 1))) \<noteq> 1
   \<and> \<not> orthonormal (right (setLook (level_camera (pi / 3)) (Vector3 0 0 1)))
          (up (setLook (level_camera (pi / 3)) (Vector3 0 0 1)))
          (look (setLook (level_camera (pi / 3)) (Vector3 0 0 1)))
   \<and> construct3Position (level_camera (pi / 3)) = Vector3 0 0 0
   \<and> look (lookAt (level_camera (pi / 3)) (Vector3 0 0 0)) = Vector3 0 0 0
   \<and> norm_v (look (lookAt (level_camera (pi / 3)) (Vector3 0 0 0))) \<noteq> 1
   \<and> pedestal tilted_camera = Vector3 0 (3 / 5) (4 / 5)
   \<and> nondegenerate (setLook tilted_camera (Vector3 0 (- (1 / 100000000)) (- (1 / 100000000))))
   \<and> norm_v (look (setLook tilted_camera
        (Vector3 0 (- (1 / 100000000)) (- (1 / 100000000))))) \<noteq> 1
   \<and> frame_inv pole_camera
   \<and> look pole_camera = pedestal pole_camera
   \<and> right (update (rotateLeft pole_camera 1)) = Vector3 0 0 0
   \<and> norm_v (right (update (rotateLeft pole_camera 1))) \<noteq> 1
   \<and> right (update (inclineRight pole_camera 1)) = Vector3 0 0 0
   \<and> norm_v (right (update (inclineRight pole_camera 1))) \<noteq> 1
   \<and> frame_inv flipped_camera
   \<and> look flipped_camera = Vector3 0 1 0
   \<and> right flipped_camera = Vector3 (- 1) 0 0
   \<and> normalize_v (cross (look flipped_camera) (pedestal flipped_camera)) = Vector3 1 0 0
   \<and> right flipped_camera \<noteq> normalize_v (cross (look flipped_camera) (pedestal flipped_camera))"
proof -
  have a: "norm_v (Vector3 0 0 1) = 1
   \<and> pedestal (level_camera (pi / 3)) = Vector3 0 0 1
   \<and> look (setLook (level_camera (pi / 3)) (Vector3 0 0 1)) = Vector3 0 0 1
   \<and> right (setLook (level_camera (pi / 3)) (Vector3 0 0 1)) = Vector3 0 0 0
   \<and> up (setLook (level_camera (pi / 3)) (Vector3 0 0 1)) = Vector3 0 0 0
   \<and> norm_v (right (setLook (level_camera (pi / 3)) (Vector3 0 0 1))) \<noteq> 1
   \<and> \<not> orthonormal (right (setLook (level_camera (pi / 3)) (Vector3 0 0 1)))
          (up (setLook (level_camera (pi / 3)) (Vector3 0 0 1)))
          (look (setLook (level_camera (pi / 3)) (Vector3 0 0 1)))"
    by (simp add: setLook_vectors level_camera_eval orthonormal_def) (simp add: vec_defs)
  have b: "construct3Position (level_camera (pi / 3)) = Vector3 0 0 0
   \<and> look (lookAt (level_camera (pi / 3)) (Vector3 0 0 0)) = Vector3 0 0 0
   \<and> norm_v (look (lookAt (level_camera (pi / 3)) (Vector3 0 0 0))) \<noteq> 1"
    by (simp add: lookAt_def setLook_vectors level_camera_eval construct3Position_def
        difference_def decreasedBy_def)
       (simp add: vec_defs)
  have c: "frame_inv pole_camera \<and> look pole_camera = pedestal pole_camera
   \<and> frame_inv flipped_camera
   \<and> look flipped_camera = Vector3 0 1 0
   \<and> right flipped_camera = Vector3 (- 1) 0 0
   \<and> normalize_v (cross (look flipped_camera) (pedestal flipped_camera)) = Vector3 1 0 0
   \<and> right flipped_camera \<noteq> normalize_v (cross (look flipped_camera) (pedestal flipped_camera))"
    by (simp add: pole_camera_eval flipped_camera_eval level_camera_eval frame_inv_def)
       (simp add: vec_defs)
  have d: "right (update (rotateLeft pole_camera 1)) = Vector3 0 0 0
   \<and> norm_v (right (update (rotateLeft pole_camera 1))) \<noteq> 1
   \<and> right (update (inclineRight pole_camera 1)) = Vector3 0 0 0
   \<and> norm_v (right (update (inclineRight pole_camera 1))) \<noteq> 1"
    by (simp add: pole_turn pole_incline norm_v_def)
  show ?thesis
    using a b c d tiny_look tilted_camera_vectors(1) by blast
qed

text \<open>
  C3. For every unit vector \<open>u\<close> not collinear with the unit vertical axis, and a unit
  horizontal reference orthogonal to that axis, \<open>toVector3\<close> applied to
  \<open>fromVector3(u, vertical, horizontal)\<close> in the same frame gives \<open>u\<close> back within
  \<open>1e-6\<close> in every component.

  The code does not: \<open>fromVector3\<close> levels \<open>u\<close> by rotating it about
  \<open>cross(u, vertical)\<close>, which is not normalized, so the levelled direction is not a unit
  vector and \<open>angleBetween\<close> (whose arguments must be normalized) returns a wrong
  horizontal angle. For \<open>u = (3/5, 0, 4/5)\<close> in the default frame the levelled
  direction is \<open>(93/125, 0, 24/125)\<close>, of squared norm \<open>369/625\<close>; the horizontal
  angle is \<open>acos(93/125)\<close> instead of \<open>0\<close>, and the round trip has first component
  \<open>279/625\<close> instead of \<open>3/5\<close>.
\<close>

theorem fromVector3_toVector3_round_trip_fails:
  "norm_v (Vector3 (3 / 5) 0 (4 / 5)) = 1 \<and> norm_v UP = 1 \<and> norm_v RIGHT = 1
   \<and> dot RIGHT UP = 0
   \<and> cross (Vector3 (3 / 5) 0 (4 / 5)) UP = Vector3 0 (- (3 / 5)) 0
   \<and> rotateAboutOrthogonal (Vector3 (3 / 5) 0 (4 / 5)) (cross (Vector3 (3 / 5) 0 (4 / 5)) UP)
        (- (pi / 2 - angleBetween (Vector3 (3 / 5) 0 (4 / 5)) UP))
       = Vector3 (93 / 125) 0 (24 / 125)
   \<and> dot (Vector3 (93 / 125) 0 (24 / 125)) (Vector3 (93 / 125) 0 (24 / 125)) = 369 / 625
   \<and> fromVector3 (Vector3 (3 / 5) 0 (4 / 5)) UP RIGHT =
       Direction2 (arccos (93 / 125)) (pi / 2 - arccos (4 / 5))
   \<and> vx (toVector3 (fromVector3 (Vector3 (3 / 5) 0 (4 / 5)) UP RIGHT) UP RIGHT) = 279 / 625
   \<and> vz (toVector3 (fromVector3 (Vector3 (3 / 5) 0 (4 / 5)) UP RIGHT) UP RIGHT) = 4 / 5
   \<and> \<not> within_tolerance (toVector3 (fromVector3 (Vector3 (3 / 5) 0 (4 / 5)) UP RIGHT) UP RIGHT)
         (Vector3 (3 / 5) 0 (4 / 5))"
  unfolding fromVector3_example levelled_example
  using toVector3_example_x toVector3_example_z sqrt_9_25
  by (simp add: within_tolerance_def norm_v_def UP_def RIGHT_def dot_def cross_def)

text \<open>
  C4. \<open>rotateUp(radians)\<close> clamps the elevation target into \<open>[minUpAng, maxUpAng]\<close>
  when it is requested; and during \<open>update()\<close>, if applying the full vertical delta would
  push the tracked elevation outside \<open>[minUpAng, maxUpAng]\<close>, only the remainder up to
  the bound is applied to \<open>look\<close> and the tracked angle is set exactly to the bound.

  As the code has it: the target is \<open>clamp(minUpAng, targetYang + radians, maxUpAng)\<close>,
  inside the bounds whenever \<open>minUpAng \<le> maxUpAng\<close>, as it is for every camera
  constructed with a non-negative \<open>maxAbsUpAng\<close>, and the sum is a number. A vertical
  delta that is not within epsilon of zero and would take the tracked elevation above
  \<open>maxUpAng\<close> rotates \<open>look\<close> about \<open>right\<close> by the remainder \<open>maxUpAng - yAng\<close> and
  sets the tracked angle to \<open>maxUpAng\<close>; one that would take it below \<open>minUpAng\<close>, and
  not above \<open>maxUpAng\<close>, which is tested first, does the same with \<open>minUpAng\<close>. A delta
  within epsilon of zero is skipped altogether: tracked angle and \<open>look\<close> stay as they
  were, whatever the bounds.
\<close>

theorem clamped_elevation:
  "targetYang (rotateUp c radians) = clamp (minUpAng c) (targetYang c + radians) (maxUpAng c)
   \<and> (minUpAng c \<le> maxUpAng c \<longrightarrow>
        minUpAng c \<le> targetYang (rotateUp c radians)
        \<and> targetYang (rotateUp c radians) \<le> maxUpAng c)
   \<and> (0 \<le> m \<longrightarrow> minUpAng (constructor p d l xa m) \<le> maxUpAng (constructor p d l xa m))
   \<and> (\<not> isZero r \<and> maxUpAng c < yAng c + r \<longrightarrow>
        yAng (actuallyRotateUp c r) = maxUpAng c
        \<and> look (actuallyRotateUp c r) =
            rotateAboutOrthogonal (look c) (right c) (maxUpAng c - yAng c))
   \<and> (\<not> isZero r \<and> yAng c + r \<le> maxUpAng c \<and> yAng c + r < minUpAng c \<longrightarrow>
        yAng (actuallyRotateUp c r) = minUpAng c
        \<and> look (actuallyRotateUp c r) =
            rotateAboutOrthogonal (look c) (right c) (minUpAng c - yAng c))
   \<and> (\<not> isZero r \<and> minUpAng c \<le> yAng c + r \<and> yAng c + r \<le> maxUpAng c \<longrightarrow>
        yAng (actuallyRotateUp c r) = yAng c + r
        \<and> look (actuallyRotateUp c r) = rotateAboutOrthogonal (look c) (right c) r)
   \<and> (isZero r \<longrightarrow> actuallyRotateUp c r = c)
   \<and> (\<not> isZero (lerp (yAng c) (targetYang c) (coef_t c) - yAng c)
        \<and> maxUpAng c < lerp (yAng c) (targetYang c) (coef_t c) \<longrightarrow>
        yAng (update c) = maxUpAng c
        \<and> look (update_y (update_x c)) =
            rotateAboutOrthogonal (look (update_x c)) (right (update_x c))
              (maxUpAng c - yAng c))
   \<and> (\<not> isZero (lerp (yAng c) (targetYang c) (coef_t c) - yAng c)
        \<and> lerp (yAng c) (targetYang c) (coef_t c) \<le> maxUpAng c
        \<and> lerp (yAng c) (targetYang c) (coef_t c) < minUpAng c \<longrightarrow>
        yAng (update c) = minUpAng c
        \<and> look (update_y (update_x c)) =
            rotateAboutOrthogonal (look (update_x c)) (right (update_x c))
              (minUpAng c - yAng c))
   \<and> (isZero (lerp (yAng c) (targetYang c) (coef_t c) - yAng c) \<longrightarrow>
        yAng (update c) = yAng c
        \<and> look (update_y (update_x c)) = look (update_x c))"
  by (simp add: yAng_update yAng_actuallyRotateUp look_actuallyRotateUp Let_def rotateUp_def
      clamp_range look_update_y update_x_keeps)
     (simp add: actuallyRotateUp_def constructor_def Let_def)

theorem clamped_elevation_witness:
  "minUpAng (level_camera (pi / 3)) \<le> maxUpAng (level_camera (pi / 3))
   \<and> targetYang (rotateUp (level_camera (pi / 3)) pi) = pi / 3
   \<and> \<not> isZero pi
   \<and> maxUpAng (level_camera (pi / 3)) < yAng (level_camera (pi / 3)) + pi
   \<and> yAng (actuallyRotateUp (level_camera (pi / 3)) pi) = pi / 3
   \<and> look (actuallyRotateUp (level_camera (pi / 3)) pi) =
       rotateAboutOrthogonal (Vector3 0 (- 1) 0) (Vector3 (- 1) 0 0) (pi / 3)
   \<and> \<not> isZero (- pi)
   \<and> yAng (level_camera (pi / 3)) + - pi \<le> maxUpAng (level_camera (pi / 3))
   \<and> yAng (level_camera (pi / 3)) + - pi < minUpAng (level_camera (pi / 3))
   \<and> yAng (actuallyRotateUp (level_camera (pi / 3)) (- pi)) = - (pi / 3)
   \<and> \<not> isZero (1 / 2)
   \<and> yAng (actuallyRotateUp (level_camera (pi / 3)) (1 / 2)) = 1 / 2
   \<and> isZero 0
   \<and> actuallyRotateUp (level_camera (pi / 3)) 0 = level_camera (pi / 3)
   \<and> maxUpAng (setLookSmooth (level_camera (1 / 4)) steep_look)
       < lerp (yAng (setLookSmooth (level_camera (1 / 4)) steep_look))
           (targetYang (setLookSmooth (level_camera (1 / 4)) steep_look))
           (coef_t (setLookSmooth (level_camera (1 / 4)) steep_look))
   \<and> yAng (update (setLookSmooth (level_camera (1 / 4)) steep_look)) = 1 / 4
   \<and> isZero (lerp (yAng (level_camera (pi / 3))) (targetYang (level_camera (pi / 3)))
               (coef_t (level_camera (pi / 3))) - yAng (level_camera (pi / 3)))
   \<and> yAng (update (level_camera (pi / 3))) = 0"
proof -
  have hi: "yAng (actuallyRotateUp (level_camera (pi / 3)) pi) = pi / 3
   \<and> look (actuallyRotateUp (level_camera (pi / 3)) pi) =
       rotateAboutOrthogonal (Vector3 0 (- 1) 0) (Vector3 (- 1) 0 0) (pi / 3)
   \<and> targetYang (rotateUp (level_camera (pi / 3)) pi) = pi / 3"
    using clamped_elevation [where c = "level_camera (pi / 3)" and radians = pi and r = pi
      and m = 0] pi_not_isZero pi_ge_two
    by (simp add: level_camera_eval rotateUp_def clamp_def)
  have lo: "yAng (actuallyRotateUp (level_camera (pi / 3)) (- pi)) = - (pi / 3)"
    using clamped_elevation [where c = "level_camera (pi / 3)" and r = "- pi" and m = 0]
      pi_ge_two
    by (simp add: level_camera_eval isZero_def epsilon_def)
  have mid: "yAng (actuallyRotateUp (level_camera (pi / 3)) (1 / 2)) = 1 / 2"
    using clamped_elevation [where c = "level_camera (pi / 3)" and r = "1 / 2" and m = 0]
      pi_ge_two
    by (simp add: level_camera_eval isZero_def epsilon_def)
  have none: "actuallyRotateUp (level_camera (pi / 3)) 0 = level_camera (pi / 3)"
    using clamped_elevation [where c = "level_camera (pi / 3)" and r = 0 and m = 0]
    by (simp add: isZero_def epsilon_def)
  have tick: "maxUpAng (setLookSmooth (level_camera (1 / 4)) steep_look)
       < lerp (yAng (setLookSmooth (level_camera (1 / 4)) steep_look))
           (targetYang (setLookSmooth (level_camera (1 / 4)) steep_look))
           (coef_t (setLookSmooth (level_camera (1 / 4)) steep_look))
   \<and> yAng (update (setLookSmooth (level_camera (1 / 4)) steep_look)) = 1 / 4"
    using clamped_elevation
        [where c = "setLookSmooth (level_camera (1 / 4)) steep_look" and m = 0] elev_gt
    by (simp add: level_camera_eval setLookSmooth_fields steep_look_angle lerp_one isZero_def
        epsilon_def)
  have idle: "isZero (lerp (yAng (level_camera (pi / 3))) (targetYang (level_camera (pi / 3)))
               (coef_t (level_camera (pi / 3))) - yAng (level_camera (pi / 3)))
   \<and> yAng (update (level_camera (pi / 3))) = 0"
    using clamped_elevation [where c = "level_camera (pi / 3)" and m = 0]
    by (simp add: level_camera_eval lerp_one isZero_def epsilon_def)
  show ?thesis
    using hi lo mid none tick idle pi_not_isZero pi_ge_two
    by (simp add: level_camera_eval isZero_def epsilon_def)
qed

text \<open>
  The claim as stated fails where the delta is within epsilon of zero. The level camera
  with the elevation bound \<open>1e-9\<close> is inside its bounds at elevation \<open>0\<close>; after
  \<open>setLookSmooth\<close> toward a look direction raised by about \<open>4e-9\<close> the full delta of
  the next \<open>update()\<close>, with the initial coefficients, would take the tracked elevation
  above \<open>maxUpAng\<close>, but it is within epsilon and the step is skipped: the tracked
  elevation stays \<open>0\<close>, not the bound, and \<open>look\<close> is not rotated. Likewise the camera
  constructed above its elevation bound, with the slowest smoothing, has the delta
  \<open>-1e-9\<close> on every tick and its tracked elevation stays above \<open>maxUpAng\<close>; so does the
  camera constructed above its bound whose target was never changed (delta zero). And a
  camera constructed with a negative \<open>maxAbsUpAng\<close> has \<open>minUpAng\<close> above
  \<open>maxUpAng\<close>: the clamped target is \<open>minUpAng\<close>, above \<open>maxUpAng\<close>.
\<close>

theorem elevation_clamp_counterexample:
  "minUpAng grazing_camera \<le> yAng grazing_camera
   \<and> yAng grazing_camera \<le> maxUpAng grazing_camera
   \<and> minUpAng grazing_camera \<le> maxUpAng grazing_camera
   \<and> coef_t grazing_camera = 1
   \<and> maxUpAng grazing_camera
       < yAng grazing_camera + (lerp (yAng grazing_camera) (targetYang grazing_camera)
                                  (coef_t grazing_camera) - yAng grazing_camera)
   \<and> isZero (lerp (yAng grazing_camera) (targetYang grazing_camera)
                                  (coef_t grazing_camera) - yAng grazing_camera)
   \<and> yAng (update grazing_camera) = 0
   \<and> yAng (update grazing_camera) \<noteq> maxUpAng grazing_camera
   \<and> look (update_y (update_x grazing_camera)) = look (update_x grazing_camera)
   \<and> lerp (yAng stalled_camera) (targetYang stalled_camera) (coef_t stalled_camera)
      - yAng stalled_camera = - (1 / 1000000000)
   \<and> maxUpAng stalled_camera
       < yAng stalled_camera + (lerp (yAng stalled_camera) (targetYang stalled_camera)
                                  (coef_t stalled_camera) - yAng stalled_camera)
   \<and> yAng (update stalled_camera) = yAng stalled_camera
   \<and> yAng (update stalled_camera) \<noteq> maxUpAng stalled_camera
   \<and> maxUpAng (steep_camera (1 / 4)) < yAng (steep_camera (1 / 4))
   \<and> yAng (update (steep_camera (1 / 4))) = yAng (steep_camera (1 / 4))
   \<and> targetYang (rotateUp (level_camera (- 1)) 0) = 1
   \<and> \<not> targetYang (rotateUp (level_camera (- 1)) 0) \<le> maxUpAng (level_camera (- 1))"
proof -
  have old: "lerp (yAng stalled_camera) (targetYang stalled_camera) (coef_t stalled_camera)
      - yAng stalled_camera = - (1 / 1000000000)
   \<and> maxUpAng stalled_camera
       < yAng stalled_camera + (lerp (yAng stalled_camera) (targetYang stalled_camera)
                                  (coef_t stalled_camera) - yAng stalled_camera)
   \<and> yAng (update stalled_camera) = yAng stalled_camera
   \<and> yAng (update stalled_camera) \<noteq> maxUpAng stalled_camera
   \<and> maxUpAng (steep_camera (1 / 4)) < yAng (steep_camera (1 / 4))
   \<and> yAng (update (steep_camera (1 / 4))) = yAng (steep_camera (1 / 4))
   \<and> targetYang (rotateUp (level_camera (- 1)) 0) = 1
   \<and> \<not> targetYang (rotateUp (level_camera (- 1)) 0) \<le> maxUpAng (level_camera (- 1))"
    using elev_gt
    by (simp add: yAng_update stalled_camera_fields steep_camera_fields lerp_def Let_def
        isZero_def epsilon_def rotateUp_def level_camera_eval clamp_def)
  show ?thesis using grazing_counter old by blast
qed

text \<open>
  C5. For every non-zero vector \<open>a\<close>, unit axis \<open>b\<close> orthogonal to \<open>a\<close> and angle
  \<open>r\<close>, \<open>rotateAbout(b, r)\<close> applied to \<open>a\<close> gives the same result, within tolerance,
  as \<open>rotateAboutOrthogonal(b, r)\<close> applied to \<open>a\<close>: every component agrees within
  \<open>1e-6\<close>. The two results are equal when \<open>a\<close> has a component larger than epsilon and
  when the norm of \<open>a\<close> is below epsilon; in between, \<open>rotateAboutOrthogonal\<close> leaves
  \<open>a\<close> alone and \<open>rotateAbout\<close> rotates it.
\<close>

theorem rotateAbout_agrees_with_rotateAboutOrthogonal:
  assumes nz: "a \<noteq> Vector3 0 0 0" and b: "norm_v b = 1" and ab: "dot a b = 0"
  shows "within_tolerance (rotateAbout a b r) (rotateAboutOrthogonal a b r)
         \<and> (\<not> isZero_v a \<longrightarrow> rotateAbout a b r = rotateAboutOrthogonal a b r)
         \<and> (norm_v a < epsilon \<longrightarrow> rotateAbout a b r = rotateAboutOrthogonal a b r)"
proof -
  have bb: "dot b b = 1"
    using b norm_v_sq[of b] by simp
  have o: "aOrth_of a b = a" by (rule aOrth_of_already_orth[OF ab])
  show ?thesis
  proof (cases "norm_v a < epsilon")
    case True
    then have "rotateAbout a b r = a" using rotateAbout_small[of a b r] o by simp
    moreover have "rotateAboutOrthogonal a b r = a"
      using isZero_v_norm_small[OF True] by (simp add: rotateAboutOrthogonal_def)
    ultimately show ?thesis by (simp add: within_tolerance_refl)
  next
    case False
    note big = rotateAbout_orth_big[OF bb ab False, of r]
    show ?thesis
    proof (cases "isZero_v a")
      case True
      then show ?thesis
        using big small_rotation_close[OF bb True, of r] False
        by (simp add: rotateAboutOrthogonal_def)
    next
      case False
      then show ?thesis
        using big by (simp add: rotateAboutOrthogonal_def Let_def within_tolerance_refl)
    qed
  qed
qed

theorem rotateAbout_agreement_witness:
  "Vector3 1 0 0 \<noteq> Vector3 0 0 0 \<and> norm_v (Vector3 0 0 1) = 1
   \<and> dot (Vector3 1 0 0) (Vector3 0 0 1) = 0
   \<and> \<not> isZero_v (Vector3 1 0 0)
   \<and> rotateAbout (Vector3 1 0 0) (Vector3 0 0 1) (pi / 2) =
       rotateAboutOrthogonal (Vector3 1 0 0) (Vector3 0 0 1) (pi / 2)
   \<and> within_tolerance (rotateAbout (Vector3 1 0 0) (Vector3 0 0 1) (pi / 2))
        (rotateAboutOrthogonal (Vector3 1 0 0) (Vector3 0 0 1) (pi / 2))"
  using rotateAbout_agrees_with_rotateAboutOrthogonal
    [of "Vector3 1 0 0" "Vector3 0 0 1" "pi / 2"]
  by (simp add: norm_v_def dot_def isZero_v_def isZero_def epsilon_def within_tolerance_refl)

text \<open>
  C6. Every vector crossing the camera's boundary (the position, pedestal and look
  arguments of the constructor, and the accessors \<open>construct3Position\<close>,
  \<open>construct3Forward\<close>, \<open>construct3Right\<close>) goes through one fixed transform that
  negates the second component; the angle reported by \<open>xAngle\<close> is negated; the up vector
  of \<open>construct3Up\<close> is passed through with no component negated. The constructor
  normalizes the converted pedestal and look, and reading the position or the horizontal
  angle of a fresh camera through \<open>construct3Position\<close> or \<open>xAngle\<close> gives the
  argument back. The arguments of \<open>setPosition\<close>, \<open>setPositionSmooth\<close> and
  \<open>setLook\<close> go through the same transform.
\<close>

theorem handedness_at_the_boundary:
  "changeHand (Vector3 a b c) = Vector3 a (- b) c
   \<and> changeAngleHand r = - r
   \<and> position (constructor p d l xa m) = changeHand p
   \<and> pedestal (constructor p d l xa m) = normalize_v (changeHand d)
   \<and> look (constructor p d l xa m) = normalize_v (changeHand l)
   \<and> xAng (constructor p d l xa m) = - xa
   \<and> construct3Position cam = changeHand (position cam)
   \<and> construct3Forward cam = changeHand (look cam)
   \<and> construct3Right cam = changeHand (right cam)
   \<and> xAngle cam = - xAng cam
   \<and> xAngleDegrees cam = - radToDeg (xAng cam)
   \<and> construct3Up cam = up cam
   \<and> construct3Position (constructor p d l xa m) = p
   \<and> xAngle (constructor p d l xa m) = xa
   \<and> position (setPosition cam p) = changeHand p
   \<and> targetPosition (setPositionSmooth cam p) = changeHand p
   \<and> look (setLook cam l) = normalize_v (changeHand l)"
  by (cases p) (simp add: changeHand_def constructor_def Let_def construct3Position_def
      construct3Forward_def construct3Right_def construct3Up_def xAngle_def changeAngleHand_def
      xAngleDegrees_def radToDeg_def setPosition_def setPositionSmooth_def setLook_vectors)

text \<open>
  C7. \<open>rayPlaneIntersection\<close> returns the failure sentinel exactly when the denominator
  \<open>dot(n, v)\<close> is within epsilon of zero or \<open>t < 0\<close>, where
  \<open>t = -(dot(n, P) + d) / dot(n, v)\<close>; otherwise it returns \<open>P + t v\<close>. When the
  denominator is not zero, that \<open>t\<close> is the one solution of \<open>dot(n, P + t v) + d = 0\<close>.
\<close>

theorem rayPlaneIntersection_null_exactly:
  "(rayPlaneIntersection (Ray P v) (Plane n d) = None) =
     (isZero (dot n v) \<or> - (dot n P + d) / dot n v < 0)
   \<and> (\<not> (isZero (dot n v) \<or> - (dot n P + d) / dot n v < 0) \<longrightarrow>
        rayPlaneIntersection (Ray P v) (Plane n d) =
          Some (increasedBy P (times_v v (- (dot n P + d) / dot n v))))
   \<and> (dot n v \<noteq> 0 \<longrightarrow>
        (dot n (increasedBy P (times_v v t)) + d = 0) = (t = - (dot n P + d) / dot n v))"
proof -
  have sol: "(dot n (increasedBy P (times_v v t)) + d = 0) = (t = - (dot n P + d) / dot n v)"
    if "dot n v \<noteq> 0"
  proof -
    have "dot n (increasedBy P (times_v v t)) + d = dot n P + t * dot n v + d"
      by (simp add: dot_increasedBy_right dot_times_right)
    then show ?thesis using that by (auto simp add: field_simps)
  qed
  show ?thesis
    using sol by (simp add: rayPlaneIntersection_def Let_def)
qed

theorem rayPlaneIntersection_witness:
  "dot (Vector3 0 0 1) (Vector3 0 0 (- 1)) \<noteq> 0
   \<and> rayPlaneIntersection (Ray (Vector3 0 0 5) (Vector3 0 0 (- 1))) (Plane (Vector3 0 0 1) 0)
       = Some (Vector3 0 0 0)
   \<and> dot (Vector3 0 0 1) (increasedBy (Vector3 0 0 5) (times_v (Vector3 0 0 (- 1)) 5)) + 0 = 0"
  using rayPlaneIntersection_null_exactly
    [of "Vector3 0 0 5" "Vector3 0 0 (- 1)" "Vector3 0 0 1" 0 5]
  by (simp add: dot_def isZero_def epsilon_def increasedBy_def times_v_def)

text \<open>
  C8. Degenerate inputs are no-ops: \<open>normalize\<close> leaves a vector whose components are all
  within epsilon of zero unchanged; \<open>rotateAboutOrthogonal\<close> leaves such a receiver
  unchanged; \<open>rotateAbout\<close> about a non-zero axis leaves the receiver unchanged whenever
  the norm of its component orthogonal to the axis is below epsilon, as it is for every
  receiver parallel to the axis. None of the three has a failing branch: each is a total
  function returning a vector.
\<close>

theorem degenerate_inputs_are_noops:
  "(isZero_v v \<longrightarrow> normalize_v v = v)
   \<and> (isZero_v v \<longrightarrow> rotateAboutOrthogonal v axis r = v)
   \<and> (dot b b \<noteq> 0 \<and> norm_v (aOrth_of a b) < epsilon \<longrightarrow> rotateAbout a b r = a)
   \<and> (dot b b \<noteq> 0 \<longrightarrow> norm_v (aOrth_of (times_v b k) b) < epsilon
        \<and> rotateAbout (times_v b k) b r = times_v b k)"
proof -
  have par: "norm_v (aOrth_of (times_v b k) b) < epsilon" if "dot b b \<noteq> 0"
    using aOrth_of_parallel[OF that, of k] epsilon_pos by (simp add: norm_v_def)
  then show ?thesis
    by (simp add: normalize_v_def rotateAboutOrthogonal_def rotateAbout_small)
qed

theorem degenerate_inputs_witness:
  "isZero_v (Vector3 (1 / 1000000000) 0 0)
   \<and> normalize_v (Vector3 (1 / 1000000000) 0 0) = Vector3 (1 / 1000000000) 0 0
   \<and> rotateAboutOrthogonal (Vector3 (1 / 1000000000) 0 0) (Vector3 0 0 1) 1
       = Vector3 (1 / 1000000000) 0 0
   \<and> dot (Vector3 0 0 1) (Vector3 0 0 1) \<noteq> 0
   \<and> norm_v (aOrth_of (Vector3 0 0 2) (Vector3 0 0 1)) < epsilon
   \<and> rotateAbout (Vector3 0 0 2) (Vector3 0 0 1) 1 = Vector3 0 0 2
   \<and> rotateAbout (times_v (Vector3 0 0 1) 2) (Vector3 0 0 1) 1 = times_v (Vector3 0 0 1) 2"
  using degenerate_inputs_are_noops[of "Vector3 (1 / 1000000000) 0 0" "Vector3 0 0 1" 1
      "Vector3 0 0 1" "Vector3 0 0 2" 2]
  by (simp add: isZero_v_def isZero_def epsilon_def norm_v_def aOrth_of_def aParallel_of_def
      dot_def increasedBy_def times_v_def)

text \<open>
  C9. On a freshly constructed camera both smoothing coefficients are \<open>1\<close>, outside the
  range \<open>[0.001, 0.999]\<close> of what \<open>setSmoothness\<close> produces, so the first \<open>update()\<close>
  after any smoothed setter moves every tracked angle and the position exactly to its
  target.

  As the code has it: with both coefficients \<open>1\<close> one \<open>update()\<close> sets the position to
  \<open>lerp(position, targetPosition, 1)\<close> and moves each tracked angle by the delta
  \<open>lerp(angle, target, 1) - angle\<close>, where \<open>lerp(a, b, 1)\<close> is \<open>(b - a) * 1 + a\<close>: the
  target in exact arithmetic, the target up to rounding in floating point. A delta within
  epsilon of zero is skipped, the angle staying where it is, within epsilon of its target;
  and an elevation delta that would pass \<open>maxUpAng\<close> or \<open>minUpAng\<close> stops the elevation
  at that bound. In exact arithmetic the position and every angle whose target is not
  beyond an elevation bound end within \<open>1e-6\<close> of the target.
\<close>

theorem default_coefficients_snap:
  "coef_t (constructor p d l xa m) = 1 \<and> coef_s (constructor p d l xa m) = 1
   \<and> 1 / 1000 \<le> coef_t (setSmoothness c a b) \<and> coef_t (setSmoothness c a b) \<le> 999 / 1000
   \<and> 1 / 1000 \<le> coef_s (setSmoothness c a b) \<and> coef_s (setSmoothness c a b) \<le> 999 / 1000
   \<and> (coef_t c = 1 \<and> coef_s c = 1 \<longrightarrow>
        position (update c) = lerp_v (position c) (targetPosition c) 1
      \<and> xAng (update c) =
          (if isZero (lerp (xAng c) (targetXang c) 1 - xAng c) then xAng c
           else lerp (xAng c) (targetXang c) 1)
      \<and> rInclinAng (update c) =
          (if \<bar>lerp (rInclinAng c) (targetRInclinAng c) 1 - rInclinAng c\<bar> < epsilon
           then rInclinAng c else lerp (rInclinAng c) (targetRInclinAng c) 1)
      \<and> fInclinAng (update c) =
          (if \<bar>lerp (fInclinAng c) (targetFInclinAng c) 1 - fInclinAng c\<bar> < epsilon
           then fInclinAng c else lerp (fInclinAng c) (targetFInclinAng c) 1)
      \<and> yAng (update c) =
          (if isZero (lerp (yAng c) (targetYang c) 1 - yAng c) then yAng c
           else if maxUpAng c < yAng c + (lerp (yAng c) (targetYang c) 1 - yAng c)
             then maxUpAng c
           else if yAng c + (lerp (yAng c) (targetYang c) 1 - yAng c) < minUpAng c
             then minUpAng c
           else yAng c + (lerp (yAng c) (targetYang c) 1 - yAng c))
      \<and> within_tolerance (position (update c)) (targetPosition c)
      \<and> \<bar>targetXang c - xAng (update c)\<bar> \<le> 1 / 1000000
      \<and> \<bar>targetRInclinAng c - rInclinAng (update c)\<bar> \<le> 1 / 1000000
      \<and> \<bar>targetFInclinAng c - fInclinAng (update c)\<bar> \<le> 1 / 1000000
      \<and> (minUpAng c \<le> targetYang c \<and> targetYang c \<le> maxUpAng c \<longrightarrow>
            \<bar>targetYang c - yAng (update c)\<bar> \<le> 1 / 1000000)
      \<and> (\<not> isZero (lerp (yAng c) (targetYang c) 1 - yAng c)
            \<and> maxUpAng c < yAng c + (lerp (yAng c) (targetYang c) 1 - yAng c) \<longrightarrow>
            yAng (update c) = maxUpAng c)
      \<and> (\<not> isZero (lerp (yAng c) (targetYang c) 1 - yAng c)
            \<and> yAng c + (lerp (yAng c) (targetYang c) 1 - yAng c) \<le> maxUpAng c
            \<and> yAng c + (lerp (yAng c) (targetYang c) 1 - yAng c) < minUpAng c \<longrightarrow>
            yAng (update c) = minUpAng c))"
proof -
  have ranges: "1 / 1000 \<le> coef_t (setSmoothness c a b)
      \<and> coef_t (setSmoothness c a b) \<le> 999 / 1000
      \<and> 1 / 1000 \<le> coef_s (setSmoothness c a b)
      \<and> coef_s (setSmoothness c a b) \<le> 999 / 1000"
    by (simp add: setSmoothness_def Let_def clamp_def)
  have fresh: "coef_t (constructor p d l xa m) = 1 \<and> coef_s (constructor p d l xa m) = 1"
    by (simp add: constructor_def Let_def)
  have shape: "position (update c) = lerp_v (position c) (targetPosition c) 1
      \<and> xAng (update c) =
          (if isZero (lerp (xAng c) (targetXang c) 1 - xAng c) then xAng c
           else lerp (xAng c) (targetXang c) 1)
      \<and> rInclinAng (update c) =
          (if \<bar>lerp (rInclinAng c) (targetRInclinAng c) 1 - rInclinAng c\<bar> < epsilon
           then rInclinAng c else lerp (rInclinAng c) (targetRInclinAng c) 1)
      \<and> fInclinAng (update c) =
          (if \<bar>lerp (fInclinAng c) (targetFInclinAng c) 1 - fInclinAng c\<bar> < epsilon
           then fInclinAng c else lerp (fInclinAng c) (targetFInclinAng c) 1)
      \<and> yAng (update c) =
          (if isZero (lerp (yAng c) (targetYang c) 1 - yAng c) then yAng c
           else if maxUpAng c < yAng c + (lerp (yAng c) (targetYang c) 1 - yAng c)
             then maxUpAng c
           else if yAng c + (lerp (yAng c) (targetYang c) 1 - yAng c) < minUpAng c
             then minUpAng c
           else yAng c + (lerp (yAng c) (targetYang c) 1 - yAng c))"
    if one: "coef_t c = 1" "coef_s c = 1"
    unfolding position_update xAng_update yAng_update rInclinAng_update fInclinAng_update
      Let_def one
    by simp
  have near: "within_tolerance (position (update c)) (targetPosition c)
      \<and> \<bar>targetXang c - xAng (update c)\<bar> \<le> 1 / 1000000
      \<and> \<bar>targetRInclinAng c - rInclinAng (update c)\<bar> \<le> 1 / 1000000
      \<and> \<bar>targetFInclinAng c - fInclinAng (update c)\<bar> \<le> 1 / 1000000
      \<and> (minUpAng c \<le> targetYang c \<and> targetYang c \<le> maxUpAng c \<longrightarrow>
            \<bar>targetYang c - yAng (update c)\<bar> \<le> 1 / 1000000)
      \<and> (\<not> isZero (lerp (yAng c) (targetYang c) 1 - yAng c)
            \<and> maxUpAng c < yAng c + (lerp (yAng c) (targetYang c) 1 - yAng c) \<longrightarrow>
            yAng (update c) = maxUpAng c)
      \<and> (\<not> isZero (lerp (yAng c) (targetYang c) 1 - yAng c)
            \<and> yAng c + (lerp (yAng c) (targetYang c) 1 - yAng c) \<le> maxUpAng c
            \<and> yAng c + (lerp (yAng c) (targetYang c) 1 - yAng c) < minUpAng c \<longrightarrow>
            yAng (update c) = minUpAng c)"
    if one: "coef_t c = 1" "coef_s c = 1"
    by (simp add: position_update xAng_update yAng_update rInclinAng_update fInclinAng_update
        one lerp_one lerp_v_one Let_def isZero_def within_tolerance_def epsilon_def)
  show ?thesis using ranges fresh shape near by blast
qed

theorem default_coefficients_witness:
  "coef_t (rotateLeft (level_camera (pi / 3)) (pi / 2)) = 1
   \<and> coef_s (rotateLeft (level_camera (pi / 3)) (pi / 2)) = 1
   \<and> within_tolerance (position (update (rotateLeft (level_camera (pi / 3)) (pi / 2))))
        (Vector3 0 0 0)
   \<and> xAng (update (rotateLeft (level_camera (pi / 3)) (pi / 2))) = pi / 2
   \<and> rInclinAng (update (inclineRight (level_camera (pi / 3)) 1)) = 1
   \<and> fInclinAng (update (inclineForward (level_camera (pi / 3)) 1)) = 1
   \<and> minUpAng (rotateUp (level_camera (pi / 3)) (1 / 2))
        \<le> targetYang (rotateUp (level_camera (pi / 3)) (1 / 2))
   \<and> targetYang (rotateUp (level_camera (pi / 3)) (1 / 2))
        \<le> maxUpAng (rotateUp (level_camera (pi / 3)) (1 / 2))
   \<and> \<bar>1 / 2 - yAng (update (rotateUp (level_camera (pi / 3)) (1 / 2)))\<bar> \<le> 1 / 1000000
   \<and> yAng (update (rotateUp (level_camera (pi / 3)) (1 / 2))) = 1 / 2
   \<and> coef_t (setLookSmooth (level_camera (1 / 4)) steep_look) = 1
   \<and> maxUpAng (setLookSmooth (level_camera (1 / 4)) steep_look)
       < targetYang (setLookSmooth (level_camera (1 / 4)) steep_look)
   \<and> yAng (update (setLookSmooth (level_camera (1 / 4)) steep_look)) = 1 / 4"
proof -
  have x: "coef_t (rotateLeft (level_camera (pi / 3)) (pi / 2)) = 1
   \<and> coef_s (rotateLeft (level_camera (pi / 3)) (pi / 2)) = 1
   \<and> within_tolerance (position (update (rotateLeft (level_camera (pi / 3)) (pi / 2))))
        (Vector3 0 0 0)
   \<and> xAng (update (rotateLeft (level_camera (pi / 3)) (pi / 2))) = pi / 2"
    using default_coefficients_snap [where c = "rotateLeft (level_camera (pi / 3)) (pi / 2)"]
      pi_half_not_isZero
    by (simp add: level_camera_eval rotateLeft_def lerp_one lerp_v_one within_tolerance_def)
  have r: "rInclinAng (update (inclineRight (level_camera (pi / 3)) 1)) = 1"
    using default_coefficients_snap [where c = "inclineRight (level_camera (pi / 3)) 1"]
    by (simp add: level_camera_eval inclineRight_def epsilon_def lerp_one)
  have f: "fInclinAng (update (inclineForward (level_camera (pi / 3)) 1)) = 1"
    using default_coefficients_snap [where c = "inclineForward (level_camera (pi / 3)) 1"]
    by (simp add: level_camera_eval inclineForward_def epsilon_def lerp_one)
  have y: "minUpAng (rotateUp (level_camera (pi / 3)) (1 / 2))
        \<le> targetYang (rotateUp (level_camera (pi / 3)) (1 / 2))
   \<and> targetYang (rotateUp (level_camera (pi / 3)) (1 / 2))
        \<le> maxUpAng (rotateUp (level_camera (pi / 3)) (1 / 2))
   \<and> \<bar>1 / 2 - yAng (update (rotateUp (level_camera (pi / 3)) (1 / 2)))\<bar> \<le> 1 / 1000000
   \<and> yAng (update (rotateUp (level_camera (pi / 3)) (1 / 2))) = 1 / 2"
  proof -
    let ?c = "rotateUp (level_camera (pi / 3)) (1 / 2)"
    have fields: "coef_t ?c = 1" "coef_s ?c = 1" "yAng ?c = 0" "targetYang ?c = 1 / 2"
      "maxUpAng ?c = pi / 3" "minUpAng ?c = - (pi / 3)"
      using pi_ge_two by (simp_all add: level_camera_eval rotateUp_def clamp_def)
    have bounds: "minUpAng ?c \<le> targetYang ?c \<and> targetYang ?c \<le> maxUpAng ?c"
      using pi_ge_two by (simp add: fields)
    have t: "yAng (update ?c) =
          (if isZero (lerp (yAng ?c) (targetYang ?c) 1 - yAng ?c) then yAng ?c
           else if maxUpAng ?c < yAng ?c + (lerp (yAng ?c) (targetYang ?c) 1 - yAng ?c)
             then maxUpAng ?c
           else if yAng ?c + (lerp (yAng ?c) (targetYang ?c) 1 - yAng ?c) < minUpAng ?c
             then minUpAng ?c
           else yAng ?c + (lerp (yAng ?c) (targetYang ?c) 1 - yAng ?c))"
      and n: "\<bar>targetYang ?c - yAng (update ?c)\<bar> \<le> 1 / 1000000"
      using default_coefficients_snap [where c = ?c] fields(1,2) bounds by blast+
    have e: "yAng (update ?c) = 1 / 2"
      unfolding t fields using pi_ge_two by (simp add: lerp_one isZero_def epsilon_def)
    show ?thesis
      using bounds n e unfolding fields(4) by blast
  qed
  have s: "coef_t (setLookSmooth (level_camera (1 / 4)) steep_look) = 1
   \<and> maxUpAng (setLookSmooth (level_camera (1 / 4)) steep_look)
       < targetYang (setLookSmooth (level_camera (1 / 4)) steep_look)
   \<and> yAng (update (setLookSmooth (level_camera (1 / 4)) steep_look)) = 1 / 4"
    using default_coefficients_snap
        [where c = "setLookSmooth (level_camera (1 / 4)) steep_look"] elev_gt
    by (simp add: level_camera_eval setLookSmooth_fields steep_look_angle isZero_def
        epsilon_def lerp_one)
  show ?thesis using x r f y s by blast
qed

text \<open>
  The claim as stated fails: after \<open>setLookSmooth\<close> toward a look direction whose
  elevation is above \<open>maxUpAng\<close>, one \<open>update()\<close> with both coefficients \<open>1\<close> leaves the
  tracked elevation at \<open>maxUpAng\<close>, not at its target.
\<close>

theorem snap_counterexample:
  "coef_t (setLookSmooth (level_camera (1 / 4)) steep_look) = 1
   \<and> coef_s (setLookSmooth (level_camera (1 / 4)) steep_look) = 1
   \<and> targetYang (setLookSmooth (level_camera (1 / 4)) steep_look) = pi / 2 - arccos (4 / 5)
   \<and> yAng (update (setLookSmooth (level_camera (1 / 4)) steep_look)) = 1 / 4
   \<and> yAng (update (setLookSmooth (level_camera (1 / 4)) steep_look))
       \<noteq> targetYang (update (setLookSmooth (level_camera (1 / 4)) steep_look))"
  using elev_gt
  by (simp add: yAng_update targets_update setLookSmooth_fields steep_look_angle
      level_camera_eval lerp_one Let_def isZero_def epsilon_def)

text \<open>
  C10. \<open>moveRight\<close>, \<open>moveForward\<close> and \<open>moveUp\<close> add the scaled basis vector to the
  position and leave \<open>targetPosition\<close> as it was, while \<open>setPosition\<close> sets both to the
  new position. The next \<open>update()\<close> therefore interpolates the moved position toward the
  target of before the move: for \<open>0 < s \<le> 1\<close> the distance to that target is
  \<open>1 - s\<close> times the distance after the move, so for a camera that was at its target
  a move by \<open>amount\<close> along \<open>right\<close> is cut down to \<open>(1 - s) * amount\<close> (to nothing
  for the initial \<open>s = 1\<close>).
\<close>

theorem move_keeps_target_and_update_pulls_back:
  "position (moveRight c amount) = increaseBy (position c) (times_v (right c) amount)
   \<and> position (moveForward c amount) = increaseBy (position c) (times_v (look c) amount)
   \<and> position (moveUp c amount) = increaseBy (position c) (times_v (up c) amount)
   \<and> targetPosition (moveRight c amount) = targetPosition c
   \<and> targetPosition (moveForward c amount) = targetPosition c
   \<and> targetPosition (moveUp c amount) = targetPosition c
   \<and> targetPosition (setPosition c p) = position (setPosition c p)
   \<and> position (setPosition c p) = changeHand p
   \<and> position (update (moveRight c amount)) =
       lerp_v (position (moveRight c amount)) (targetPosition c) (coef_s c)
   \<and> position (update (moveForward c amount)) =
       lerp_v (position (moveForward c amount)) (targetPosition c) (coef_s c)
   \<and> position (update (moveUp c amount)) =
       lerp_v (position (moveUp c amount)) (targetPosition c) (coef_s c)
   \<and> (0 < coef_s c \<and> coef_s c \<le> 1 \<longrightarrow>
        distanceTo (position (update (moveRight c amount))) (targetPosition c) =
          (1 - coef_s c) * distanceTo (position (moveRight c amount)) (targetPosition c)
      \<and> distanceTo (position (update (moveForward c amount))) (targetPosition c) =
          (1 - coef_s c) * distanceTo (position (moveForward c amount)) (targetPosition c)
      \<and> distanceTo (position (update (moveUp c amount))) (targetPosition c) =
          (1 - coef_s c) * distanceTo (position (moveUp c amount)) (targetPosition c))
   \<and> (position c = targetPosition c \<longrightarrow>
        position (update (moveRight c amount)) =
          increasedBy (position c) (times_v (right c) ((1 - coef_s c) * amount)))"
proof -
  have mr: "targetPosition (moveRight c amount) = targetPosition c"
      "coef_s (moveRight c amount) = coef_s c"
    by (simp_all add: moveRight_def)
  have mf: "targetPosition (moveForward c amount) = targetPosition c"
      "coef_s (moveForward c amount) = coef_s c"
    by (simp_all add: moveForward_def)
  have mu: "targetPosition (moveUp c amount) = targetPosition c"
      "coef_s (moveUp c amount) = coef_s c"
    by (simp_all add: moveUp_def)
  have pulled: "position c = targetPosition c \<Longrightarrow>
        position (update (moveRight c amount)) =
          increasedBy (position c) (times_v (right c) ((1 - coef_s c) * amount))"
    by (simp add: position_update mr)
       (simp add: moveRight_def lerp_v_def lerp_def increaseBy_def increasedBy_def times_v_def
          algebra_simps)
  show ?thesis
    using pulled
    by (simp add: position_update mr mf mu distanceTo_lerp_v)
       (simp add: moveRight_def moveForward_def moveUp_def setPosition_def Let_def)
qed

theorem move_then_update_witness:
  "position (level_camera (pi / 3)) = targetPosition (level_camera (pi / 3))
   \<and> position (moveRight (level_camera (pi / 3)) 2) = Vector3 (- 2) 0 0
   \<and> targetPosition (moveRight (level_camera (pi / 3)) 2) = Vector3 0 0 0
   \<and> position (update (moveRight (level_camera (pi / 3)) 2)) = Vector3 0 0 0
   \<and> 0 < coef_s (setSmoothness (level_camera (pi / 3)) (1 / 2) (1 / 2))
   \<and> coef_s (setSmoothness (level_camera (pi / 3)) (1 / 2) (1 / 2)) \<le> 1
   \<and> position (update (moveRight (setSmoothness (level_camera (pi / 3)) (1 / 2) (1 / 2)) 2))
       = Vector3 (- 1) 0 0
   \<and> distanceTo
        (position (update (moveRight (setSmoothness (level_camera (pi / 3)) (1 / 2) (1 / 2)) 2)))
        (Vector3 0 0 0) = 1"
  using move_keeps_target_and_update_pulls_back [of "level_camera (pi / 3)" 2]
    move_keeps_target_and_update_pulls_back
      [of "setSmoothness (level_camera (pi / 3)) (1 / 2) (1 / 2)" 2]
  by (simp add: level_camera_eval setSmoothness_def clamp_def increaseBy_def increasedBy_def
      times_v_def Let_def lerp_v_def lerp_def distanceTo_def difference_def norm_v_def)

end
